theory Spec2Isabelle
  imports Complex_Main "HOL-Library.AList"
begin

section \<open>The Go string library, as far as munin\_exporter.go uses it\<close>

text \<open>
  A Go string is a sequence of bytes; \<^typ>\<open>string\<close> is a list of 8-bit characters,
  so the two agree byte for byte. The functions below follow package \<open>strings\<close>.
  Two of them (\<open>strings.Fields\<close> and \<open>strings.ToLower\<close>) have a byte-wise path
  that Go takes exactly when no byte of the argument is \<open>0x80\<close> or above, and a
  rune-wise path driven by the tables of package \<open>unicode\<close> otherwise. The byte-wise
  path is written out; the rune-wise path is a parameter (record \<open>golib\<close> below),
  so that nothing is assumed about it.
\<close>

definition isASCII :: "string \<Rightarrow> bool" where
  "isASCII s = list_all (\<lambda>c. \<not> digit7 c) s"

text \<open>\<open>strings.HasPrefix\<close>: \<open>len(s) >= len(prefix) && s[0:len(prefix)] == prefix\<close>.\<close>

definition HasPrefix :: "string \<Rightarrow> string \<Rightarrow> bool" where
  "HasPrefix s pre = (length pre \<le> length s \<and> take (length pre) s = pre)"

text \<open>\<open>strings.Split(s, sep)\<close> for a separator of one byte: the pieces between the
  separators, one more than there are separators; \<open>Split("", sep)\<close> is \<open>[""]\<close>.\<close>

fun Split :: "string \<Rightarrow> char \<Rightarrow> string list" where
  "Split [] sep = [[]]"
| "Split (c # cs) sep =
     (if c = sep then [] # Split cs sep
      else (case Split cs sep of
              [] \<Rightarrow> [[c]]
            | piece # pieces \<Rightarrow> (c # piece) # pieces))"

text \<open>\<open>strings.Join(parts, sep)\<close>.\<close>

fun Join :: "string list \<Rightarrow> string \<Rightarrow> string" where
  "Join [] sep = []"
| "Join [p] sep = p"
| "Join (p # q # ps) sep = p @ sep @ Join (q # ps) sep"

text \<open>\<open>strings.Replace(s, old, new, -1)\<close> for \<open>old\<close> and \<open>new\<close> of one byte each:
  every occurrence is replaced.\<close>

definition Replace :: "string \<Rightarrow> char \<Rightarrow> char \<Rightarrow> string" where
  "Replace s old new = map (\<lambda>c. if c = old then new else c) s"

text \<open>\<open>strings.TrimRight(s, "\n")\<close>: all trailing newline bytes are removed.\<close>

definition NL :: char where
  "NL = CHR 0x0A"

definition TrimRightNL :: "string \<Rightarrow> string" where
  "TrimRightNL s = rev (dropWhile (\<lambda>c. c = NL) (rev s))"

text \<open>The byte-wise path of \<open>strings.Fields\<close>: the maximal runs of bytes that are not
  ASCII white space (\<open>\t \n \v \f \r\<close> and the space), in order.\<close>

definition asciiSpace :: "char \<Rightarrow> bool" where
  "asciiSpace c = (c \<in> set [CHR 0x09, CHR 0x0A, CHR 0x0B, CHR 0x0C, CHR 0x0D, CHR 0x20])"

fun fieldsFrom :: "string \<Rightarrow> string \<Rightarrow> string list" where
  "fieldsFrom cur [] = (if cur = [] then [] else [cur])"
| "fieldsFrom cur (c # cs) =
     (if asciiSpace c then (if cur = [] then fieldsFrom [] cs else cur # fieldsFrom [] cs)
      else fieldsFrom (cur @ [c]) cs)"

definition asciiFields :: "string \<Rightarrow> string list" where
  "asciiFields s = fieldsFrom [] s"

text \<open>The byte-wise path of \<open>strings.ToLower\<close>: \<open>A\<close>..\<open>Z\<close> become \<open>a\<close>..\<open>z\<close>.\<close>

definition asciiLower :: "char \<Rightarrow> char" where
  "asciiLower c =
     (case map_of (zip ''ABCDEFGHIJKLMNOPQRSTUVWXYZ'' ''abcdefghijklmnopqrstuvwxyz'') c of
        None \<Rightarrow> c
      | Some l \<Rightarrow> l)"

text \<open>
  \<open>utf8.ValidString\<close>: the string is a sequence of well-formed UTF-8 encodings. After a
  first byte \<open>C2\<close>..\<open>DF\<close> one continuation byte \<open>80\<close>..\<open>BF\<close> follows; after \<open>E0\<close>..\<open>EF\<close>
  two, the first of them from \<open>A0\<close> after \<open>E0\<close> and up to \<open>9F\<close> after \<open>ED\<close>; after
  \<open>F0\<close>..\<open>F4\<close> three, the first of them from \<open>90\<close> after \<open>F0\<close> and up to \<open>8F\<close> after
  \<open>F4\<close>. Every other byte from \<open>80\<close> on cannot start an encoding.
\<close>

definition byteIn :: "char \<Rightarrow> nat \<Rightarrow> nat \<Rightarrow> bool" where
  "byteIn c lo hi = (lo \<le> of_char c \<and> (of_char c :: nat) \<le> hi)"

fun ValidString :: "string \<Rightarrow> bool" where
  "ValidString [] = True"
| "ValidString (a # s) =
     (if \<not> digit7 a then ValidString s
      else if byteIn a 0xC2 0xDF
      then (case s of
              b # s' \<Rightarrow> byteIn b 0x80 0xBF \<and> ValidString s'
            | _ \<Rightarrow> False)
      else if byteIn a 0xE0 0xEF
      then (case s of
              b # c # s' \<Rightarrow>
                byteIn b (if byteIn a 0xE0 0xE0 then 0xA0 else 0x80)
                         (if byteIn a 0xED 0xED then 0x9F else 0xBF)
                \<and> byteIn c 0x80 0xBF \<and> ValidString s'
            | _ \<Rightarrow> False)
      else if byteIn a 0xF0 0xF4
      then (case s of
              b # c # d # s' \<Rightarrow>
                byteIn b (if byteIn a 0xF0 0xF0 then 0x90 else 0x80)
                         (if byteIn a 0xF4 0xF4 then 0x8F else 0xBF)
                \<and> byteIn c 0x80 0xBF \<and> byteIn d 0x80 0xBF \<and> ValidString s'
            | _ \<Rightarrow> False)
      else False)"

section \<open>Canonical metric names\<close>

text \<open>The flags the modelled functions read: \<open>-metricPrefix\<close> and \<open>-muninIgnore\<close>.\<close>

record flags =
  metricPrefix :: string
  muninIgnore :: string

text \<open>Lines 246-250 of \<open>registerMetrics\<close>: the name under which a field of a plugin
  is registered.\<close>

definition registerName :: "flags \<Rightarrow> string \<Rightarrow> string \<Rightarrow> string" where
  "registerName fl name metric =
     (let metricParts = [name, metric];
          metricParts = (if metricPrefix fl \<noteq> [] then [metricPrefix fl] @ metricParts
                         else metricParts)
      in Replace (Join metricParts ''_'') (CHR ''-'') (CHR ''_''))"

text \<open>Lines 337-341 of \<open>fetchMetrics\<close>: the name under which a fetched value is
  looked up.\<close>

definition fetchName :: "flags \<Rightarrow> string \<Rightarrow> string \<Rightarrow> string" where
  "fetchName fl graph key =
     (let metricParts = [graph, key];
          metricParts = (if metricPrefix fl \<noteq> [] then [metricPrefix fl] @ metricParts
                         else metricParts)
      in Replace (Join metricParts ''_'') (CHR ''-'') (CHR ''_''))"

text \<open>The rule in the words of the specification: join the optional non-empty global
  prefix, the plugin name and the field name with \<open>_\<close>, then replace every \<open>-\<close>
  with \<open>_\<close>.\<close>

definition canonicalName :: "string \<Rightarrow> string \<Rightarrow> string \<Rightarrow> string" where
  "canonicalName pre plugin field =
     map (\<lambda>c. if c = CHR ''-'' then CHR ''_'' else c)
       ((if pre = [] then [] else pre @ ''_'') @ plugin @ ''_'' @ field)"

section \<open>Errors, outcomes and the data model\<close>

text \<open>The two kinds of error a read can return: \<open>io.EOF\<close> and anything else.\<close>

datatype ioerr = EOF | IOError string

text \<open>The error values that the program's functions return to their callers.\<close>

datatype error =
    ErrIO ioerr
  | ErrDial string
  | ErrUnexpectedLine string
  | ErrGettingItems string
  | ErrLineUnexpected string

text \<open>The calls of \<open>log.Fatalf\<close>, each of which ends the process with exit status 1.\<close>

datatype fatal =
    FatalUnexpectedError ioerr
  | FatalUnexpectedEOF

text \<open>The run-time panics the modelled code can raise: an index into an empty string,
  a method call through a nil map entry, and the two panics of \<open>WithLabelValues\<close>: the
  number of label values is not the number of the vector's labels, or a label value is
  not valid UTF-8.\<close>

datatype panic = IndexOutOfRange | NilDereference | LabelCardinality | InvalidLabelValue

text \<open>How a call ends: it returns, the process exits through \<open>log.Fatalf\<close>, it panics,
  or it stays in the reconnect loop for ever.\<close>

datatype 'a outcome = Return 'a | Exit fatal | Panic panic | Blocked

fun andThen :: "'a outcome \<Rightarrow> ('a \<Rightarrow> 'b outcome) \<Rightarrow> 'b outcome" where
  "andThen (Return x) f = f x"
| "andThen (Exit e) f = Exit e"
| "andThen (Panic p) f = Panic p"
| "andThen Blocked f = Blocked"

text \<open>A descriptor as the sink sees it (\<open>prometheus.Desc\<close>, \<open>prometheus.GaugeOpts\<close>).\<close>

record desc =
  fqName :: string
  descHelp :: string
  constLabels :: "(string \<times> string) list"
  variableLabels :: "string list"

text \<open>The struct \<open>muninCounter\<close> of lines 45-50.\<close>

record 'f muninCounter =
  counterDesc :: desc
  counterValue :: 'f
  currentLabels :: "string list"

text \<open>A \<open>prometheus.GaugeVec\<close>: its descriptor and the value set for each tuple of label
  values.\<close>

record 'f gaugeVec =
  gaugeDesc :: desc
  gaugeSamples :: "(string list \<times> 'f) list"

text \<open>The messages of \<open>log.Printf\<close>, one constructor per call site.\<close>

datatype 'f logmsg =
    LogConnecting
  | LogConnected
  | LogFoundHostname string
  | LogNotConnected
  | LogCouldntReconnect error
  | LogCouldntGetList
  | LogCouldntReadResponse
  | LogCouldntGetConfig string
  | LogRegisteredCounter string string
  | LogRegisteredGauge string string
  | LogEndOfList
  | LogUnexpectedLine string
  | LogCouldntParse string
  | LogValue string 'f

text \<open>
  What the program does to the outside, in the order in which it does it: a log line, a
  command written to the connection (the string handed to \<open>fmt.Fprintf\<close>), the
  connection closed, a sleep of \<open>retryInterval\<close> seconds, a call of
  \<open>prometheus.Register\<close> (with the sink's verdict, \<open>True\<close> for an error, which the
  program never looks at), a gauge set and a counter holder updated (both with the key of
  the holder map, the label values and the value).
\<close>

datatype 'f event =
    Log "'f logmsg"
  | Command string
  | Close
  | Sleep
  | Registration desc bool
  | GaugeSet string "string list" 'f
  | CounterUpdate string "string list" 'f

text \<open>
  The agent's answer to one command, as the \<open>bufio.Reader\<close> made for that command
  delivers it: the error of \<open>Peek(1)\<close>, the lines that \<open>ReadString('\n')\<close> returns with a
  nil error, the error it returns after them, and the time the answer took.
\<close>

record reply =
  peekErr :: "ioerr option"
  replyLines :: "string list"
  replyEnd :: ioerr
  replyDelay :: nat

text \<open>
  One attempt of \<open>net.Dial\<close>: its error if it fails, and otherwise the result of reading
  the banner line and the replies this connection will give, in order, to the commands
  sent on it. A connection that has given all its replies is closed by the agent.
\<close>

record dial =
  dialErr :: "string option"
  banner :: "ioerr + string"
  script :: "reply list"
  dialDelay :: nat

text \<open>
  The state: the agent as the program will find it (the outcomes of the dial attempts
  still to come; after the last one every dial fails), the connection \<open>globalConn\<close> as
  the replies it still holds, the monotonic clock in nanoseconds, the package variables
  \<open>hostname\<close>, \<open>graphs\<close>, \<open>gaugePerMetric\<close> and \<open>counterPerMetric\<close>, the descriptors the
  sink has accepted, and the trace of events.
\<close>

record 'f state =
  dials :: "dial list"
  replies :: "reply list"
  clock :: int
  hostname :: string
  graphs :: "string list"
  gaugePerMetric :: "string \<rightharpoonup> 'f gaugeVec"
  counterPerMetric :: "string \<rightharpoonup> 'f muninCounter"
  registry :: "desc list"
  trace :: "'f event list"

definition emit :: "'f event \<Rightarrow> 'f state \<Rightarrow> 'f state" where
  "emit e st = st\<lparr>trace := trace st @ [e]\<rparr>"

section \<open>The libraries and the runtime\<close>

text \<open>
  What the program takes from outside its own source: the rune-wise paths of the two
  string functions, \<open>strconv.ParseFloat(s, 64)\<close> (\<open>None\<close> is a non-nil error), the
  \<open>float64\<close> values \<open>0\<close> and \<open>1\<close>, \<open>Duration.Seconds\<close> on a duration in nanoseconds,
  \<open>runtime.Version()\<close>, the order in which \<open>range\<close> visits the keys of a map (Go
  leaves it unspecified), and the verdict of the metrics sink on a registration
  (\<open>True\<close>: \<open>prometheus.Register\<close> returns an error for this descriptor, given the
  descriptors it accepted before). The type \<open>'f\<close> stands for \<open>float64\<close>.
\<close>

record 'f golib =
  unicodeFields :: "string \<Rightarrow> string list"
  unicodeToLower :: "string \<Rightarrow> string"
  parseFloat :: "string \<Rightarrow> 'f option"
  float0 :: 'f
  float1 :: 'f
  seconds :: "int \<Rightarrow> 'f"
  goVersion :: string
  rangeOrder :: "string list \<Rightarrow> string list"
  sinkRejects :: "desc list \<Rightarrow> desc \<Rightarrow> bool"

definition Fields :: "('f, 'x) golib_scheme \<Rightarrow> string \<Rightarrow> string list" where
  "Fields lib s = (if isASCII s then asciiFields s else unicodeFields lib s)"

definition ToLower :: "('f, 'x) golib_scheme \<Rightarrow> string \<Rightarrow> string" where
  "ToLower lib s = (if isASCII s then map asciiLower s else unicodeToLower lib s)"

section \<open>The protocol client\<close>

text \<open>The regular expression \<open># munin node at (.*)\<close> on the banner line: the leftmost
  occurrence of the literal text, and after it everything up to the end of the line.\<close>

fun bannerHostname :: "string \<Rightarrow> string option" where
  "bannerHostname [] = None"
| "bannerHostname (c # cs) =
     (if HasPrefix (c # cs) ''# munin node at ''
      then Some (takeWhile (\<lambda>x. x \<noteq> NL) (drop (length ''# munin node at '') (c # cs)))
      else bannerHostname cs)"

text \<open>\<open>connect\<close>, lines 103-124.\<close>

definition connect :: "'f state \<Rightarrow> error option \<times> 'f state" where
  "connect st0 =
     (let st = emit (Log LogConnecting) st0 in
      case dials st of
        [] \<Rightarrow> (Some (ErrDial ''no agent''), st\<lparr>replies := []\<rparr>)
      | d # ds \<Rightarrow>
          (let st = st\<lparr>dials := ds, clock := clock st + int (dialDelay d)\<rparr> in
           case dialErr d of
             Some e \<Rightarrow> (Some (ErrDial e), st\<lparr>replies := []\<rparr>)
           | None \<Rightarrow>
               (let st = emit (Log LogConnected) (st\<lparr>replies := script d\<rparr>) in
                case banner d of
                  Inl e \<Rightarrow> (Some (ErrIO e), st)
                | Inr head \<Rightarrow>
                    (case bannerHostname head of
                       None \<Rightarrow> (Some (ErrUnexpectedLine head), st)
                     | Some h \<Rightarrow>
                         (None, emit (Log (LogFoundHostname h)) (st\<lparr>hostname := h\<rparr>))))))"

text \<open>\<open>time.Sleep(retryInterval * time.Second)\<close>.\<close>

definition sleep :: "'f state \<Rightarrow> 'f state" where
  "sleep st = emit Sleep (st\<lparr>clock := clock st + 1000000000\<rparr>)"

text \<open>The loop of lines 136-143. With no dial attempt left to succeed it never ends.\<close>

function reconnect :: "'f state \<Rightarrow> 'f state outcome" where
  "reconnect st =
     (if dials st = [] then Blocked
      else (case connect st of
              (None, st1) \<Rightarrow> Return st1
            | (Some err, st1) \<Rightarrow>
                reconnect (sleep (emit (Log (LogCouldntReconnect err)) st1))))"
  by pat_completeness auto
termination
  apply (relation "measure (\<lambda>st. length (dials st))")
   apply simp
  apply (auto simp: connect_def sleep_def emit_def Let_def
              split: list.splits option.splits sum.splits)
  done

text \<open>The reply to the next command on the current connection.\<close>

definition closedReply :: reply where
  "closedReply = \<lparr>peekErr = Some EOF, replyLines = [], replyEnd = EOF, replyDelay = 0\<rparr>"

definition nextReply :: "'f state \<Rightarrow> reply \<times> 'f state" where
  "nextReply st =
     (case replies st of
        [] \<Rightarrow> (closedReply, st)
      | r # rs \<Rightarrow> (r, st\<lparr>replies := rs, clock := clock st + int (replyDelay r)\<rparr>))"

text \<open>\<open>muninCommand\<close>, lines 126-153. The reader it returns is the reply.\<close>

function muninCommand :: "string \<Rightarrow> 'f state \<Rightarrow> (reply \<times> error option \<times> 'f state) outcome" where
  "muninCommand cmd st =
     (case nextReply (emit (Command cmd) st) of
        (reader, st1) \<Rightarrow>
          (case peekErr reader of
             Some EOF \<Rightarrow>
               (case reconnect (emit Close (emit (Log LogNotConnected) st1)) of
                  Return st2 \<Rightarrow> muninCommand cmd st2
                | Exit e \<Rightarrow> Exit e
                | Panic p \<Rightarrow> Panic p
                | Blocked \<Rightarrow> Blocked)
           | None \<Rightarrow> Return (reader, None, st1)
           | Some (IOError e) \<Rightarrow> Exit (FatalUnexpectedError (IOError e))))"
  by pat_completeness auto
termination
proof (relation "measure (\<lambda>(cmd, st). length (dials st))")
  show "wf (measure (\<lambda>(cmd, st::'f state). length (dials st)))"
    by simp
next
  fix cmd :: string and st :: "'f state" and reader and st1 :: "'f state"
    and st2 :: "'f state"
  assume nr: "(reader, st1) = nextReply (emit (Command cmd) st)"
    and rc: "reconnect (emit Close (emit (Log LogNotConnected) st1)) = Return st2"
  have shrink: "reconnect s = Return s' \<Longrightarrow> length (dials s') < length (dials s)"
    for s s' :: "'f state"
  proof (induction s rule: reconnect.induct)
    case (1 s)
    from "1.prems" have ne: "dials s \<noteq> []"
      by (auto split: if_splits)
    obtain r s1 where c: "connect s = (r, s1)"
      by (cases "connect s")
    from ne c have d: "dials s1 = tl (dials s)"
      by (auto simp: connect_def emit_def Let_def
               split: list.splits option.splits sum.splits)
    show ?case
    proof (cases r)
      case None
      with "1.prems" ne c have "s' = s1" by simp
      with d ne show ?thesis by (cases "dials s") simp_all
    next
      case (Some err)
      with "1.prems" ne c
      have "reconnect (sleep (emit (Log (LogCouldntReconnect err)) s1)) = Return s'"
        by simp
      from "1.IH"[OF ne c[symmetric] Some this]
      have "length (dials s') < length (dials s1)"
        by (simp add: sleep_def emit_def)
      with d show ?thesis by simp
    qed
  qed
  from nr have "dials st1 = dials st"
    by (auto simp: nextReply_def emit_def split: list.splits)
  with shrink[OF rc]
  show "((cmd, st2), cmd, st) \<in> measure (\<lambda>(cmd, st). length (dials st))"
    by (simp add: emit_def)
qed

section \<open>The metric holders\<close>

text \<open>\<open>newMuninCounter\<close>, lines 70-79: \<open>value\<close> and \<open>currentLabels\<close> keep their zero
  values.\<close>

definition newMuninCounter ::
  "('f, 'x) golib_scheme \<Rightarrow> string \<Rightarrow> string \<Rightarrow> string list \<Rightarrow> (string \<times> string) list
   \<Rightarrow> 'f muninCounter" where
  "newMuninCounter lib metricName dsc labels constlabels =
     \<lparr>counterDesc = \<lparr>fqName = metricName, descHelp = dsc, constLabels = constlabels,
                      variableLabels = labels\<rparr>,
      counterValue = float0 lib,
      currentLabels = []\<rparr>"

text \<open>\<open>UpdateLabels\<close>, lines 65-68.\<close>

definition UpdateLabels :: "'f muninCounter \<Rightarrow> string list \<Rightarrow> 'f \<Rightarrow> 'f muninCounter" where
  "UpdateLabels c labels v = c\<lparr>counterValue := v, currentLabels := labels\<rparr>"

text \<open>\<open>prometheus.NewGaugeVec\<close> with the options the program passes: the constant label
  \<open>type\<close> is \<open>gauge\<close>.\<close>

definition NewGaugeVec :: "string \<Rightarrow> string \<Rightarrow> string list \<Rightarrow> 'f gaugeVec" where
  "NewGaugeVec metricName dsc labels =
     \<lparr>gaugeDesc = \<lparr>fqName = metricName, descHelp = dsc, constLabels = [(''type'', ''gauge'')],
                    variableLabels = labels\<rparr>,
      gaugeSamples = []\<rparr>"

text \<open>
  \<open>gv.WithLabelValues(lvs...).Set(v)\<close>. \<open>WithLabelValues\<close> panics with the error of the
  library's check of the label values: first on a number of label values that is not
  the number of labels of the vector, then on a label value that is not valid UTF-8.
  Otherwise the value is set for this tuple of label values.
\<close>

definition WithLabelValuesSet :: "'f gaugeVec \<Rightarrow> string list \<Rightarrow> 'f \<Rightarrow> panic + 'f gaugeVec" where
  "WithLabelValuesSet gv lvs v =
     (if length lvs \<noteq> length (variableLabels (gaugeDesc gv)) then Inl LabelCardinality
      else if list_ex (\<lambda>lv. \<not> ValidString lv) lvs then Inl InvalidLabelValue
      else Inr (gv\<lparr>gaugeSamples := AList.update lvs v (gaugeSamples gv)\<rparr>))"

text \<open>\<open>prometheus.Register\<close>: the sink keeps the descriptor unless it rejects it, and
  returns whether it did.\<close>

definition Register :: "('f, 'x) golib_scheme \<Rightarrow> desc \<Rightarrow> 'f state \<Rightarrow> bool \<times> 'f state" where
  "Register lib d st =
     (if sinkRejects lib (registry st) d then (True, emit (Registration d True) st)
      else (False, emit (Registration d False) (st\<lparr>registry := registry st @ [d]\<rparr>)))"

text \<open>A Go map read \<open>m[k]\<close> on a map of strings: the empty string when the key is
  absent.\<close>

definition lookupStr :: "(string \<rightharpoonup> string) \<Rightarrow> string \<Rightarrow> string" where
  "lookupStr m k = (case m k of None \<Rightarrow> [] | Some v \<Rightarrow> v)"

section \<open>The catalog builder\<close>

text \<open>\<open>muninList\<close>, lines 155-174.\<close>

definition muninList ::
  "('f, 'x) golib_scheme \<Rightarrow> 'f state \<Rightarrow> (string list \<times> error option \<times> 'f state) outcome" where
  "muninList lib st =
     andThen (muninCommand ''list'' st) (\<lambda>(munin, err, st1).
       case err of
         Some e \<Rightarrow> Return ([], Some e, emit (Log LogCouldntGetList) st1)
       | None \<Rightarrow>
           (case replyLines munin of
              [] \<Rightarrow> Return ([], Some (ErrIO (replyEnd munin)),
                             emit (Log LogCouldntReadResponse) st1)
            | response # _ \<Rightarrow>
                (case response of
                   [] \<Rightarrow> Panic IndexOutOfRange
                 | c # _ \<Rightarrow>
                     if c = CHR ''#'' then Return ([], Some (ErrGettingItems response), st1)
                     else Return (Fields lib (TrimRightNL response), None, st1))))"

text \<open>
  The loop of \<open>muninConfig\<close>, lines 186-216, over the lines of the response. The map
  \<open>config\<close> is kept as an association list, since \<open>registerMetrics\<close> ranges over it; the
  result is \<open>(config, graphConfig, err)\<close>, with nil maps beside a non-nil error.
\<close>

type_synonym fieldConfigs = "(string \<times> (string \<rightharpoonup> string)) list"

fun configLoop ::
  "('f, 'x) golib_scheme \<Rightarrow> string list \<Rightarrow> ioerr \<Rightarrow> fieldConfigs \<Rightarrow> (string \<rightharpoonup> string)
   \<Rightarrow> (fieldConfigs \<times> (string \<rightharpoonup> string) \<times> error option) outcome" where
  "configLoop lib [] fin config graphConfig =
     (case fin of
        EOF \<Rightarrow> Exit FatalUnexpectedEOF
      | IOError e \<Rightarrow> Return ([], Map.empty, Some (ErrIO (IOError e))))"
| "configLoop lib (line # rest) fin config graphConfig =
     (if line = [CHR ''.'', NL] then Return (config, graphConfig, None)
      else (case line of
              [] \<Rightarrow> Panic IndexOutOfRange
            | c # _ \<Rightarrow>
                if c = CHR ''#'' then configLoop lib rest fin config graphConfig
                else (let parts = Fields lib line in
                      if length parts < 2
                      then Return ([], Map.empty, Some (ErrLineUnexpected line))
                      else (let key = parts ! 0;
                                val = TrimRightNL (Join (tl parts) '' '');
                                keyParts = Split key (CHR ''.'')
                            in if length keyParts > 1
                               then (let inner = (case map_of config (keyParts ! 0) of
                                                    None \<Rightarrow> Map.empty
                                                  | Some m \<Rightarrow> m)
                                     in configLoop lib rest fin
                                          (AList.update (keyParts ! 0)
                                             (inner(keyParts ! 1 \<mapsto> val)) config)
                                          graphConfig)
                               else configLoop lib rest fin config
                                      (graphConfig(keyParts ! 0 \<mapsto> val))))))"

text \<open>\<open>muninConfig\<close>, lines 176-218.\<close>

definition muninConfig ::
  "('f, 'x) golib_scheme \<Rightarrow> string \<Rightarrow> 'f state
   \<Rightarrow> (fieldConfigs \<times> (string \<rightharpoonup> string) \<times> error option \<times> 'f state) outcome" where
  "muninConfig lib name st =
     andThen (muninCommand (''config '' @ name) st) (\<lambda>(resp, err, st1).
       case err of
         Some e \<Rightarrow> Return ([], Map.empty, Some e, emit (Log (LogCouldntGetConfig name)) st1)
       | None \<Rightarrow>
           andThen (configLoop lib (replyLines resp) (replyEnd resp) [] Map.empty)
             (\<lambda>(config, graphConfig, err'). Return (config, graphConfig, err', st1)))"

text \<open>Lines 230-235 of \<open>registerMetrics\<close>: the flag \<open>skip\<close> after the loop over the
  ignore list.\<close>

definition skipPlugin :: "string list \<Rightarrow> string \<Rightarrow> bool" where
  "skipPlugin ignoreList name =
     foldl (\<lambda>skip pre. if HasPrefix name pre then True else skip) False ignoreList"

text \<open>Lines 246-275: the body of the loop over the fields of one plugin. The error that
  \<open>prometheus.Register\<close> returns is dropped, as in the source.\<close>

definition registerField ::
  "('f, 'x) golib_scheme \<Rightarrow> flags \<Rightarrow> string \<Rightarrow> (string \<rightharpoonup> string) \<Rightarrow> string
   \<Rightarrow> (string \<rightharpoonup> string) \<Rightarrow> 'f state \<Rightarrow> 'f state" where
  "registerField lib fl name graphConfig metric config st =
     (let metricName = registerName fl name metric;
          dsc = lookupStr graphConfig ''graph_title'' @ '': '' @ lookupStr config ''label'';
          dsc = (if lookupStr config ''info'' \<noteq> [] then dsc @ '', '' @ lookupStr config ''info''
                 else dsc);
          muninType = ToLower lib (lookupStr config ''type'')
      in if muninType = ''counter'' \<or> muninType = ''derive''
         then (let gv = newMuninCounter lib metricName dsc
                          [''hostname'', ''graphname'', ''muninlabel''] [(''type'', muninType)];
                   st = emit (Log (LogRegisteredCounter metricName dsc)) st;
                   st = st\<lparr>counterPerMetric := (counterPerMetric st)(metricName \<mapsto> gv)\<rparr>
               in snd (Register lib (counterDesc gv) st))
         else (let gv = NewGaugeVec metricName dsc [''hostname'', ''graphname'', ''muninlabel''];
                   st = emit (Log (LogRegisteredGauge metricName dsc)) st;
                   st = st\<lparr>gaugePerMetric := (gaugePerMetric st)(metricName \<mapsto> gv)\<rparr>
               in snd (Register lib (gaugeDesc gv) st)))"

text \<open>The loop of line 245 over the keys of \<open>configs\<close>, in the order the runtime
  chooses.\<close>

fun registerFields ::
  "('f, 'x) golib_scheme \<Rightarrow> flags \<Rightarrow> string \<Rightarrow> (string \<rightharpoonup> string) \<Rightarrow> fieldConfigs
   \<Rightarrow> string list \<Rightarrow> 'f state \<Rightarrow> 'f state" where
  "registerFields lib fl name graphConfig configs [] st = st"
| "registerFields lib fl name graphConfig configs (metric # metrics) st =
     (case map_of configs metric of
        None \<Rightarrow> registerFields lib fl name graphConfig configs metrics st
      | Some config \<Rightarrow>
          registerFields lib fl name graphConfig configs metrics
            (registerField lib fl name graphConfig metric config st))"

text \<open>The loop of lines 229-277 over the plugin names.\<close>

fun registerPlugins ::
  "('f, 'x) golib_scheme \<Rightarrow> flags \<Rightarrow> string list \<Rightarrow> string list \<Rightarrow> 'f state
   \<Rightarrow> (error option \<times> 'f state) outcome" where
  "registerPlugins lib fl ignoreList [] st = Return (None, st)"
| "registerPlugins lib fl ignoreList (name # items) st =
     (if skipPlugin ignoreList name then registerPlugins lib fl ignoreList items st
      else andThen (muninConfig lib name (st\<lparr>graphs := graphs st @ [name]\<rparr>))
             (\<lambda>(configs, graphConfig, err, st1).
                case err of
                  Some e \<Rightarrow> Return (Some e, st1)
                | None \<Rightarrow>
                    registerPlugins lib fl ignoreList items
                      (registerFields lib fl name graphConfig configs
                         (rangeOrder lib (map fst configs)) st1)))"

text \<open>Lines 278-299: the two built-in gauges.\<close>

definition fetchTimeName :: string where
  "fetchTimeName = ''munin_exporter_fetch_time''"

definition version_num :: string where
  "version_num = ''0.2''"

definition builtInMetrics :: "('f, 'x) golib_scheme \<Rightarrow> 'f state \<Rightarrow> 'f state outcome" where
  "builtInMetrics lib st =
     (let buildInfoMetric =
            NewGaugeVec ''munin_exporter_build_info'' ''Munin exporter build info''
              [''goversion'', ''version_num'']
      in case WithLabelValuesSet buildInfoMetric [goVersion lib, version_num] (float1 lib) of
           Inl p \<Rightarrow> Panic p
         | Inr buildInfoMetric \<Rightarrow>
             (let st = emit (GaugeSet ''munin_exporter_build_info''
                               [goVersion lib, version_num] (float1 lib)) st;
                  st = snd (Register lib (gaugeDesc buildInfoMetric) st);
                  gv = NewGaugeVec fetchTimeName
                         ''Time taken to fetch data from all registered munin plugins''
                         [''hostname''];
                  st = st\<lparr>gaugePerMetric := (gaugePerMetric st)(fetchTimeName \<mapsto> gv)\<rparr>
              in Return (snd (Register lib (gaugeDesc gv) st))))"

text \<open>\<open>registerMetrics\<close>, lines 220-301.\<close>

definition registerMetrics ::
  "('f, 'x) golib_scheme \<Rightarrow> flags \<Rightarrow> 'f state \<Rightarrow> (error option \<times> 'f state) outcome" where
  "registerMetrics lib fl st =
     andThen (muninList lib st) (\<lambda>(items, err, st1).
       case err of
         Some e \<Rightarrow> Return (Some e, st1)
       | None \<Rightarrow>
           andThen (registerPlugins lib fl (Split (muninIgnore fl) (CHR '','')) items st1)
             (\<lambda>(err', st2).
                case err' of
                  Some e \<Rightarrow> Return (Some e, st2)
                | None \<Rightarrow> andThen (builtInMetrics lib st2) (\<lambda>st3. Return (None, st3))))"

section \<open>The scrape loop\<close>

text \<open>
  The body of the loop of \<open>fetchMetrics\<close> for one line that was read without error,
  lines 313 and 321-352: the loop goes on with the next line (\<open>Continue\<close>, at each
  \<open>continue\<close> and at the end of the body), or it is left at the end marker (\<open>Break\<close>),
  or \<open>WithLabelValues\<close> panics.
\<close>

datatype 'f step = Continue "'f state" | Break "'f state" | StepPanic panic

definition fetchLine ::
  "('f, 'x) golib_scheme \<Rightarrow> flags \<Rightarrow> string \<Rightarrow> string \<Rightarrow> 'f state \<Rightarrow> 'f step" where
  "fetchLine lib fl graph raw st =
     (let line = TrimRightNL raw in
      if length line = 1 \<and> hd line = CHR ''.''
      then Break (emit (Log LogEndOfList) st)
      else (let parts = Fields lib line in
            if length parts \<noteq> 2
            then Continue (emit (Log (LogUnexpectedLine line)) st)
            else (let key = hd (Split (parts ! 0) (CHR ''.''));
                      valueString = parts ! 1
                  in case parseFloat lib valueString of
                       None \<Rightarrow> Continue (emit (Log (LogCouldntParse line)) st)
                     | Some v \<Rightarrow>
                         (let name = fetchName fl graph key;
                              st = emit (Log (LogValue name v)) st
                          in case gaugePerMetric st name of
                               Some gv \<Rightarrow>
                                 (case WithLabelValuesSet gv [hostname st, graph, key] v of
                                    Inl p \<Rightarrow> StepPanic p
                                  | Inr gv' \<Rightarrow>
                                      Continue
                                        (emit (GaugeSet name [hostname st, graph, key] v)
                                           (st\<lparr>gaugePerMetric :=
                                                 (gaugePerMetric st)(name \<mapsto> gv')\<rparr>)))
                             | None \<Rightarrow>
                                 (case counterPerMetric st name of
                                    Some c \<Rightarrow>
                                      Continue
                                        (emit (CounterUpdate name [hostname st, graph, key] v)
                                           (st\<lparr>counterPerMetric :=
                                                 (counterPerMetric st)(name \<mapsto>
                                                   UpdateLabels c [hostname st, graph, key] v)\<rparr>))
                                  | None \<Rightarrow> Continue st)))))"

text \<open>
  The loop of lines 311-353 over the lines of one plugin's response. When the lines run
  out, \<open>ReadString\<close> returns its error: \<open>io.EOF\<close> reaches \<open>log.Fatalf\<close> (line 315),
  any other error is returned (line 319). The result is \<open>None\<close> after the \<open>break\<close> at
  the end marker.
\<close>

fun fetchLoop ::
  "('f, 'x) golib_scheme \<Rightarrow> flags \<Rightarrow> string \<Rightarrow> string list \<Rightarrow> ioerr \<Rightarrow> 'f state
   \<Rightarrow> (error option \<times> 'f state) outcome" where
  "fetchLoop lib fl graph [] fin st =
     (case fin of
        EOF \<Rightarrow> Exit FatalUnexpectedEOF
      | IOError e \<Rightarrow> Return (Some (ErrIO (IOError e)), st))"
| "fetchLoop lib fl graph (raw # rest) fin st =
     (case fetchLine lib fl graph raw st of
        Continue st' \<Rightarrow> fetchLoop lib fl graph rest fin st'
      | Break st' \<Rightarrow> Return (None, st')
      | StepPanic p \<Rightarrow> Panic p)"

text \<open>The loop of lines 305-354 over \<open>graphs\<close>.\<close>

fun fetchGraphs ::
  "('f, 'x) golib_scheme \<Rightarrow> flags \<Rightarrow> string list \<Rightarrow> 'f state
   \<Rightarrow> (error option \<times> 'f state) outcome" where
  "fetchGraphs lib fl [] st = Return (None, st)"
| "fetchGraphs lib fl (graph # rest) st =
     andThen (muninCommand (''fetch '' @ graph) st) (\<lambda>(munin, err, st1).
       case err of
         Some e \<Rightarrow> Return (Some e, st1)
       | None \<Rightarrow>
           andThen (fetchLoop lib fl graph (replyLines munin) (replyEnd munin) st1)
             (\<lambda>(err', st2).
                case err' of
                  Some e \<Rightarrow> Return (Some e, st2)
                | None \<Rightarrow> fetchGraphs lib fl rest st2))"

text \<open>\<open>fetchMetrics\<close>, lines 303-358. \<open>time.Since(start)\<close> is the monotonic clock at
  the end of the pass less its reading at the start.\<close>

definition fetchMetrics ::
  "('f, 'x) golib_scheme \<Rightarrow> flags \<Rightarrow> 'f state \<Rightarrow> (error option \<times> 'f state) outcome" where
  "fetchMetrics lib fl st =
     (let start = clock st in
      andThen (fetchGraphs lib fl (graphs st) st) (\<lambda>(err, st1).
        case err of
          Some e \<Rightarrow> Return (Some e, st1)
        | None \<Rightarrow>
            (case gaugePerMetric st1 fetchTimeName of
               None \<Rightarrow> Panic NilDereference
             | Some gv \<Rightarrow>
                 (let v = seconds lib (clock st1 - start) in
                  case WithLabelValuesSet gv [hostname st1] v of
                    Inl p \<Rightarrow> Panic p
                  | Inr gv' \<Rightarrow>
                      Return (None,
                        emit (GaugeSet fetchTimeName [hostname st1] v)
                          (st1\<lparr>gaugePerMetric :=
                                 (gaugePerMetric st1)(fetchTimeName \<mapsto> gv')\<rparr>))))))"

section \<open>Notions used in the statements\<close>

text \<open>The descriptors of the holders in the two maps, by key: what a holder is, as
  opposed to the values it holds.\<close>

definition gaugeDescs :: "'f state \<Rightarrow> string \<rightharpoonup> desc" where
  "gaugeDescs st = (\<lambda>name. map_option gaugeDesc (gaugePerMetric st name))"

definition counterDescs :: "'f state \<Rightarrow> string \<rightharpoonup> desc" where
  "counterDescs st = (\<lambda>name. map_option counterDesc (counterPerMetric st name))"

text \<open>The events that write a value into a holder.\<close>

fun holderWrite :: "'f event \<Rightarrow> bool" where
  "holderWrite (GaugeSet name lvs v) = True"
| "holderWrite (CounterUpdate name lvs v) = True"
| "holderWrite e = False"

text \<open>
  Two relations between a state and a later one, used to carry facts through the loops.
  \<open>netStep\<close>: only the protocol client has run; the holders, \<open>graphs\<close> and the
  registry are as before, the clock has not gone back, and the new events write no
  holder. \<open>passStep\<close>: lines of fetch responses may have been processed as well; the
  descriptors of the holders are as before, and every gauge set among the new events is
  on a key whose gauge vector has three labels.
\<close>

fun labelsFit :: "(string \<rightharpoonup> desc) \<Rightarrow> 'f event \<Rightarrow> bool" where
  "labelsFit ds (GaugeSet name lvs v) =
     (case ds name of None \<Rightarrow> False | Some d \<Rightarrow> length (variableLabels d) = 3)"
| "labelsFit ds e = True"

definition passStep :: "'f state \<Rightarrow> 'f state \<Rightarrow> bool" where
  "passStep st st' =
     (gaugeDescs st' = gaugeDescs st \<and> counterDescs st' = counterDescs st
      \<and> graphs st' = graphs st \<and> registry st' = registry st \<and> clock st \<le> clock st'
      \<and> (\<exists>evs. trace st' = trace st @ evs \<and> list_all (labelsFit (gaugeDescs st)) evs))"

definition netStep :: "'f state \<Rightarrow> 'f state \<Rightarrow> bool" where
  "netStep st st' =
     (gaugePerMetric st' = gaugePerMetric st \<and> counterPerMetric st' = counterPerMetric st
      \<and> graphs st' = graphs st \<and> registry st' = registry st \<and> clock st \<le> clock st'
      \<and> (\<exists>evs. trace st' = trace st @ evs \<and> list_all (\<lambda>e. \<not> holderWrite e) evs))"

text \<open>
  The classification in the words of the specification: the declared \<open>type\<close> attribute,
  compared case-insensitively (two strings are equal in this sense when lower-casing
  makes them equal), is \<open>counter\<close> or \<open>derive\<close>; an absent attribute is neither.
\<close>

definition equalIgnoringCase :: "('f, 'x) golib_scheme \<Rightarrow> string \<Rightarrow> string \<Rightarrow> bool" where
  "equalIgnoringCase lib s t = (ToLower lib s = ToLower lib t)"

definition declaredCounter :: "('f, 'x) golib_scheme \<Rightarrow> (string \<rightharpoonup> string) \<Rightarrow> bool" where
  "declaredCounter lib config =
     (case config ''type'' of
        None \<Rightarrow> False
      | Some t \<Rightarrow> equalIgnoringCase lib t ''counter'' \<or> equalIgnoringCase lib t ''derive'')"

text \<open>
  The lines of a config response as the loop of \<open>muninConfig\<close> tells them apart, the end
  marker aside: a line it passes over or stores (a comment, or a line of at least two
  tokens), and a malformed line (not a comment, fewer than two tokens).
\<close>

definition acceptedConfigLine :: "('f, 'x) golib_scheme \<Rightarrow> string \<Rightarrow> bool" where
  "acceptedConfigLine lib line =
     (line \<noteq> [CHR ''.'', NL] \<and> line \<noteq> []
      \<and> (hd line = CHR ''#'' \<or> 2 \<le> length (Fields lib line)))"

definition malformedConfigLine :: "('f, 'x) golib_scheme \<Rightarrow> string \<Rightarrow> bool" where
  "malformedConfigLine lib line =
     (line \<noteq> [CHR ''.'', NL] \<and> line \<noteq> [] \<and> hd line \<noteq> CHR ''#''
      \<and> length (Fields lib line) < 2)"

text \<open>
  A state without what the sink decided: the registry emptied, and in the trace every
  registration shown as accepted. Two runs that agree on this view agree on everything
  the program itself holds and did.
\<close>

fun eraseVerdict :: "'f event \<Rightarrow> 'f event" where
  "eraseVerdict (Registration d rejected) = Registration d False"
| "eraseVerdict e = e"

definition besidesSink :: "'f state \<Rightarrow> 'f state" where
  "besidesSink st = st\<lparr>registry := [], trace := map eraseVerdict (trace st)\<rparr>"

definition buildResult ::
  "(error option \<times> 'f state) outcome \<Rightarrow> (error option \<times> 'f state) outcome" where
  "buildResult out = andThen out (\<lambda>(err, st). Return (err, besidesSink st))"

definition alike :: "'f state \<Rightarrow> 'f state \<Rightarrow> bool" where
  "alike a b = (besidesSink a = besidesSink b)"

fun outcomeRel :: "('a \<Rightarrow> 'b \<Rightarrow> bool) \<Rightarrow> 'a outcome \<Rightarrow> 'b outcome \<Rightarrow> bool" where
  "outcomeRel P (Return x) (Return y) = P x y"
| "outcomeRel P (Exit e) (Exit e') = (e = e')"
| "outcomeRel P (Panic p) (Panic p') = (p = p')"
| "outcomeRel P Blocked Blocked = True"
| "outcomeRel P x y = False"









section \<open>A sample agent\<close>

text \<open>
  Concrete inputs on which the theorems below are instantiated: a library instance with
  \<open>real\<close> for \<open>float64\<close>, whose parser knows two numerals, whose map iteration follows
  the order of insertion and whose sink rejects a descriptor with a name it already has;
  a reply read to its end; and a state after a catalog build, with a gauge \<open>cpu_user\<close>,
  a counter \<open>cpu_system\<close>, the names \<open>cpu_both\<close> and \<open>munin_exporter_fetch_time\<close>
  held in both maps, and the response of the plugin \<open>cpu\<close> to the next fetch.
\<close>

definition sampleLib :: "real golib" where
  "sampleLib =
     \<lparr>unicodeFields = (\<lambda>s. []),
      unicodeToLower = (\<lambda>s. s),
      parseFloat = (\<lambda>s. if s = ''12.5'' then Some 12.5 else if s = ''99'' then Some 99 else None),
      float0 = 0,
      float1 = 1,
      seconds = (\<lambda>d. real_of_int d / 1000000000),
      goVersion = ''go1.21'',
      rangeOrder = (\<lambda>ks. ks),
      sinkRejects = (\<lambda>ds d. fqName d \<in> set (map fqName ds))\<rparr>"

definition answer :: "string list \<Rightarrow> reply" where
  "answer ls = \<lparr>peekErr = None, replyLines = ls, replyEnd = EOF, replyDelay = 2000000\<rparr>"

definition fieldLabels :: "string list" where
  "fieldLabels = [''hostname'', ''graphname'', ''muninlabel'']"

definition sampleCounter :: "string \<Rightarrow> real muninCounter" where
  "sampleCounter name = newMuninCounter sampleLib name ''CPU: system'' fieldLabels [(''type'', ''derive'')]"

definition scrapeState :: "real state" where
  "scrapeState =
     \<lparr>dials = [],
      replies = [answer [''user.value 12.5\<newline>'', ''system.value 99\<newline>'', ''both.value 99\<newline>'',
                         ''bogus\<newline>'', ''user.value twelve\<newline>'', ''.\<newline>'']],
      clock = 0,
      hostname = ''node1'',
      graphs = [''cpu''],
      gaugePerMetric =
        [''cpu_user'' \<mapsto> NewGaugeVec ''cpu_user'' ''CPU: user'' fieldLabels,
         ''cpu_both'' \<mapsto> NewGaugeVec ''cpu_both'' ''CPU: both'' fieldLabels,
         fetchTimeName \<mapsto> NewGaugeVec fetchTimeName ''Time taken'' [''hostname'']],
      counterPerMetric =
        [''cpu_system'' \<mapsto> sampleCounter ''cpu_system'',
         ''cpu_both'' \<mapsto> sampleCounter ''cpu_both'',
         fetchTimeName \<mapsto> sampleCounter fetchTimeName],
      registry = [],
      trace = []\<rparr>"

definition noPrefix :: flags where
  "noPrefix = \<lparr>metricPrefix = [], muninIgnore = ''if_''\<rparr>"

text \<open>The state in which \<open>init\<close> leaves the program when the agent \<open>node1\<close> accepted the
  connection and will give the replies \<open>rs\<close>.\<close>

definition connectedTo :: "reply list \<Rightarrow> real state" where
  "connectedTo rs =
     \<lparr>dials = [], replies = rs, clock = 0, hostname = ''node1'', graphs = [],
      gaugePerMetric = Map.empty, counterPerMetric = Map.empty, registry = [], trace = []\<rparr>"

text \<open>An agent with the plugins \<open>disk-io\<close> and \<open>disk_io\<close>, each with one field
  \<open>read\<close>: both fields derive the canonical name \<open>disk_io_read\<close>.\<close>

definition collidingAgent :: "real state" where
  "collidingAgent =
     connectedTo [answer [''disk-io disk_io\<newline>''],
                  answer [''graph_title Disk\<newline>'', ''read.label read\<newline>'', ''.\<newline>''],
                  answer [''graph_title Disk\<newline>'', ''read.label read\<newline>'', ''.\<newline>'']]"

text \<open>An agent with the plugin \<open>munin-exporter\<close>, whose field \<open>fetch_time\<close> is declared a
  counter: the field derives the name of the built-in scrape-duration gauge.\<close>

definition exporterAgent :: "real state" where
  "exporterAgent =
     connectedTo [answer [''munin-exporter\<newline>''],
                  answer [''graph_title Exporter\<newline>'', ''fetch_time.label time\<newline>'',
                          ''fetch_time.type COUNTER\<newline>'', ''.\<newline>''],
                  answer [''fetch_time.value 99\<newline>'', ''.\<newline>'']]"

text \<open>The default values of the flags \<open>-metricPrefix\<close> and \<open>-muninIgnore\<close> (lines 32
  and 34): both empty.\<close>

definition defaultFlags :: flags where
  "defaultFlags = \<lparr>metricPrefix = [], muninIgnore = []\<rparr>"

text \<open>An agent with the plugins \<open>cpu\<close> and \<open>load\<close>.\<close>

definition twoPlugins :: "real state" where
  "twoPlugins =
     connectedTo [answer [''cpu load\<newline>''],
                  answer [''graph_title CPU\<newline>'', ''user.label user\<newline>'', ''.\<newline>''],
                  answer [''graph_title Load\<newline>'', ''load.label load\<newline>'', ''.\<newline>'']]"


section \<open>Facts about the protocol client and the loops\<close>

lemma netStep_refl: "netStep st st"
  by (simp add: netStep_def)

lemma netStep_trans: "netStep a b \<Longrightarrow> netStep b c \<Longrightarrow> netStep a c"
proof -
  assume ab: "netStep a b" and bc: "netStep b c"
  from ab obtain e1 where e1: "trace b = trace a @ e1" "list_all (\<lambda>e. \<not> holderWrite e) e1"
    by (auto simp: netStep_def)
  from bc obtain e2 where e2: "trace c = trace b @ e2" "list_all (\<lambda>e. \<not> holderWrite e) e2"
    by (auto simp: netStep_def)
  from e1 e2 have "trace c = trace a @ (e1 @ e2) \<and> list_all (\<lambda>e. \<not> holderWrite e) (e1 @ e2)"
    by simp
  then have "\<exists>evs. trace c = trace a @ evs \<and> list_all (\<lambda>e. \<not> holderWrite e) evs"
    by blast
  with ab bc show ?thesis
    by (simp add: netStep_def)
qed

lemma netStep_emit0: "\<not> holderWrite e \<Longrightarrow> netStep st (emit e st)"
  by (simp add: netStep_def emit_def)

lemma netStep_emit: "\<not> holderWrite e \<Longrightarrow> netStep st st' \<Longrightarrow> netStep st (emit e st')"
  using netStep_trans[OF _ netStep_emit0] by blast

lemma connect_netStep: "connect st = (r, st') \<Longrightarrow> netStep st st'"
  unfolding connect_def Let_def
  by (auto simp: netStep_def emit_def split: list.splits option.splits sum.splits)

lemma sleep_netStep: "netStep st (sleep st)"
  by (simp add: netStep_def sleep_def emit_def)

lemma reconnect_netStep: "reconnect st = Return st' \<Longrightarrow> netStep st st'"
proof (induction st rule: reconnect.induct)
  case (1 st)
  from "1.prems" have ne: "dials st \<noteq> []"
    by (auto split: if_splits)
  obtain r s1 where c: "connect st = (r, s1)"
    by (cases "connect st")
  have n1: "netStep st s1"
    by (rule connect_netStep[OF c])
  show ?case
  proof (cases r)
    case None
    with "1.prems" ne c show ?thesis using n1 by simp
  next
    case (Some err)
    let ?s2 = "sleep (emit (Log (LogCouldntReconnect err)) s1)"
    from Some "1.prems" ne c have "reconnect ?s2 = Return st'"
      by simp
    from "1.IH"[OF ne c[symmetric] Some this] have "netStep ?s2 st'" .
    moreover have "netStep st ?s2"
      by (rule netStep_trans[OF netStep_emit[OF _ n1] sleep_netStep]) simp
    ultimately show ?thesis
      by (rule netStep_trans[rotated])
  qed
qed

lemma nextReply_netStep: "nextReply st = (r, st') \<Longrightarrow> netStep st st'"
  by (auto simp: nextReply_def netStep_def split: list.splits)

lemma muninCommand_netStep:
  "muninCommand cmd st = Return (reader, err, st') \<Longrightarrow> netStep st st' \<and> err = None"
proof (induction cmd st rule: muninCommand.induct)
  case (1 cmd st)
  obtain r s1 where nr: "nextReply (emit (Command cmd) st) = (r, s1)"
    by (cases "nextReply (emit (Command cmd) st)")
  have n1: "netStep st s1"
    by (rule netStep_trans[OF netStep_emit0 nextReply_netStep[OF nr]]) simp
  show ?case
  proof (cases "peekErr r")
    case None
    with "1.prems" nr n1 show ?thesis by simp
  next
    case (Some e)
    show ?thesis
    proof (cases e)
      case EOF
      let ?s2 = "emit Close (emit (Log LogNotConnected) s1)"
      from "1.prems" nr Some EOF obtain s3 where
        rc: "reconnect ?s2 = Return s3" and mc: "muninCommand cmd s3 = Return (reader, err, st')"
        by (auto split: outcome.splits)
      have "netStep st ?s2"
        by (intro netStep_emit n1) simp_all
      from netStep_trans[OF this reconnect_netStep[OF rc]] have n3: "netStep st s3" .
      from "1.IH"[OF nr[symmetric] Some EOF rc mc] have "netStep s3 st' \<and> err = None" .
      with n3 show ?thesis
        by (auto intro: netStep_trans)
    next
      case (IOError x)
      with "1.prems" nr Some show ?thesis by simp
    qed
  qed
qed


lemma andThen_Return:
  "andThen m f = Return y \<longleftrightarrow> (\<exists>x. m = Return x \<and> f x = Return y)"
  by (cases m) simp_all

lemma passStep_refl: "passStep st st"
  by (simp add: passStep_def)

lemma passStep_trans: "passStep a b \<Longrightarrow> passStep b c \<Longrightarrow> passStep a c"
proof -
  assume ab: "passStep a b" and bc: "passStep b c"
  from ab obtain e1 where e1: "trace b = trace a @ e1" "list_all (labelsFit (gaugeDescs a)) e1"
    by (auto simp: passStep_def)
  from bc obtain e2 where e2: "trace c = trace b @ e2" "list_all (labelsFit (gaugeDescs b)) e2"
    by (auto simp: passStep_def)
  from ab have "gaugeDescs b = gaugeDescs a"
    by (simp add: passStep_def)
  with e1 e2
  have "trace c = trace a @ (e1 @ e2) \<and> list_all (labelsFit (gaugeDescs a)) (e1 @ e2)"
    by simp
  then have "\<exists>evs. trace c = trace a @ evs \<and> list_all (labelsFit (gaugeDescs a)) evs"
    by blast
  with ab bc show ?thesis
    by (simp add: passStep_def)
qed

lemma quiet_labelsFit: "\<not> holderWrite e \<Longrightarrow> labelsFit ds e"
  by (cases e) simp_all

lemma netStep_passStep: "netStep st st' \<Longrightarrow> passStep st st'"
proof -
  assume n: "netStep st st'"
  then obtain evs where e: "trace st' = trace st @ evs" "list_all (\<lambda>e. \<not> holderWrite e) evs"
    by (auto simp: netStep_def)
  from e(2) have "list_all (labelsFit (gaugeDescs st)) evs"
    by (induction evs) (simp_all add: quiet_labelsFit)
  with e(1) n show ?thesis
    by (auto simp: netStep_def passStep_def gaugeDescs_def counterDescs_def)
qed

lemma fetchLine_passStep:
  assumes "fetchLine lib fl graph raw st = Continue st' \<or> fetchLine lib fl graph raw st = Break st'"
  shows "passStep st st' \<and> clock st' = clock st"
  using assms unfolding fetchLine_def Let_def
  by (auto simp: passStep_def emit_def gaugeDescs_def counterDescs_def fun_eq_iff
                 WithLabelValuesSet_def UpdateLabels_def
           split: if_splits option.splits sum.splits)

lemma fetchLoop_passStep:
  "fetchLoop lib fl graph ls fin st = Return (r, st') \<Longrightarrow> passStep st st'"
proof (induction ls arbitrary: st)
  case Nil
  then show ?case
    by (auto simp: passStep_refl split: ioerr.splits)
next
  case (Cons raw rest)
  show ?case
  proof (cases "fetchLine lib fl graph raw st")
    case (Continue s1)
    with Cons.prems have "fetchLoop lib fl graph rest fin s1 = Return (r, st')"
      by simp
    from Cons.IH[OF this] fetchLine_passStep[of lib fl graph raw st s1] Continue
    show ?thesis
      by (blast intro: passStep_trans)
  next
    case (Break s1)
    with Cons.prems fetchLine_passStep[of lib fl graph raw st s1] show ?thesis
      by simp
  next
    case (StepPanic p)
    with Cons.prems show ?thesis by simp
  qed
qed

lemma fetchGraphs_passStep:
  "fetchGraphs lib fl gs st = Return (r, st') \<Longrightarrow> passStep st st'"
proof (induction gs arbitrary: st)
  case Nil
  then show ?case by (simp add: passStep_refl)
next
  case (Cons graph rest)
  from Cons.prems obtain munin err s1 where
    mc: "muninCommand (''fetch '' @ graph) st = Return (munin, err, s1)"
    and k1: "(case err of
                Some e \<Rightarrow> Return (Some e, s1)
              | None \<Rightarrow>
                  andThen (fetchLoop lib fl graph (replyLines munin) (replyEnd munin) s1)
                    (\<lambda>(err', st2). case err' of
                        Some e \<Rightarrow> Return (Some e, st2)
                      | None \<Rightarrow> fetchGraphs lib fl rest st2)) = Return (r, st')"
    by (auto simp: andThen_Return)
  from muninCommand_netStep[OF mc] have n1: "passStep st s1" and en: "err = None"
    by (simp_all add: netStep_passStep)
  from k1 en obtain err' s2 where
    fl: "fetchLoop lib fl graph (replyLines munin) (replyEnd munin) s1 = Return (err', s2)"
    and k2: "(case err' of Some e \<Rightarrow> Return (Some e, s2)
              | None \<Rightarrow> fetchGraphs lib fl rest s2) = Return (r, st')"
    by (auto simp: andThen_Return)
  from passStep_trans[OF n1 fetchLoop_passStep[OF fl]] have n2: "passStep st s2" .
  show ?case
  proof (cases err')
    case None
    with k2 have "fetchGraphs lib fl rest s2 = Return (r, st')" by simp
    from passStep_trans[OF n2 Cons.IH[OF this]] show ?thesis .
  next
    case (Some e)
    with k2 n2 show ?thesis by simp
  qed
qed

lemma Fields_dot: "Fields lib ''.'' = [''.'']"
  by (simp add: Fields_def isASCII_def asciiFields_def asciiSpace_def)

lemma end_marker_iff: "(length line = Suc 0 \<and> hd line = CHR ''.'') \<longleftrightarrow> line = ''.''"
  by (cases line) auto

lemmas sample_defs =
  scrapeState_def sampleLib_def noPrefix_def answer_def fieldLabels_def sampleCounter_def
  fetchTimeName_def NewGaugeVec_def newMuninCounter_def

lemmas string_defs =
  Fields_def isASCII_def asciiFields_def asciiSpace_def TrimRightNL_def NL_def
  fetchName_def registerName_def Replace_def

lemma sample_pass_returns:
  "\<exists>st'. fetchMetrics sampleLib noPrefix scrapeState = Return (None, st')"
  by (simp add: fetchMetrics_def scrapeState_def sampleLib_def noPrefix_def answer_def
        nextReply_def emit_def fetchLine_def Fields_def isASCII_def asciiFields_def asciiSpace_def
        TrimRightNL_def NL_def fetchName_def Replace_def WithLabelValuesSet_def NewGaugeVec_def
        fieldLabels_def fetchTimeName_def sampleCounter_def newMuninCounter_def UpdateLabels_def Let_def)

lemma fetchMetrics_descs:
  assumes "fetchMetrics lib fl st = Return (r, st')"
  shows "counterDescs st' = counterDescs st \<and> gaugeDescs st' = gaugeDescs st"
proof -
  from assms obtain e1 s1 where
    fg: "fetchGraphs lib fl (graphs st) st = Return (e1, s1)"
    and k: "(case e1 of Some e \<Rightarrow> Return (Some e, s1)
            | None \<Rightarrow>
            (case gaugePerMetric s1 fetchTimeName of
               None \<Rightarrow> Panic NilDereference
             | Some gv \<Rightarrow>
                 (let v = seconds lib (clock s1 - clock st) in
                  case WithLabelValuesSet gv [hostname s1] v of
                    Inl p \<Rightarrow> Panic p
                  | Inr gv' \<Rightarrow>
                      Return (None,
                        emit (GaugeSet fetchTimeName [hostname s1] v)
                          (s1\<lparr>gaugePerMetric :=
                                 (gaugePerMetric s1)(fetchTimeName \<mapsto> gv')\<rparr>))))) = Return (r, st')"
    by (auto simp: fetchMetrics_def Let_def andThen_Return)
  from fetchGraphs_passStep[OF fg] have d1: "counterDescs s1 = counterDescs st" "gaugeDescs s1 = gaugeDescs st"
    by (simp_all add: passStep_def)
  from k have "counterDescs st' = counterDescs s1 \<and> gaugeDescs st' = gaugeDescs s1"
    by (auto simp: Let_def emit_def counterDescs_def gaugeDescs_def fun_eq_iff WithLabelValuesSet_def
             split: option.splits if_splits sum.splits)
  with d1 show ?thesis by simp
qed

lemma ToLower_keywords:
  "ToLower lib ''counter'' = ''counter''" "ToLower lib ''derive'' = ''derive''" "ToLower lib [] = []"
  by (simp_all add: ToLower_def isASCII_def asciiLower_def)

lemma declaredCounter_iff:
  "declaredCounter lib config \<longleftrightarrow>
     ToLower lib (lookupStr config ''type'') = ''counter''
     \<or> ToLower lib (lookupStr config ''type'') = ''derive''"
  by (simp add: declaredCounter_def equalIgnoringCase_def lookupStr_def ToLower_keywords
           split: option.splits)

lemma configLoop_accepted:
  "acceptedConfigLine lib line \<Longrightarrow>
   \<exists>config' graphConfig'.
     configLoop lib (line # rest) fin config graphConfig
     = configLoop lib rest fin config' graphConfig'"
  unfolding acceptedConfigLine_def
  by (cases line) (auto simp: Let_def)

lemma configLoop_malformed:
  "malformedConfigLine lib line \<Longrightarrow>
   configLoop lib (line # rest) fin config graphConfig
   = Return ([], Map.empty, Some (ErrLineUnexpected line))"
  unfolding malformedConfigLine_def
  by (cases line) (auto simp: Let_def)

lemma configLoop_aborts:
  "list_all (acceptedConfigLine lib) before \<Longrightarrow> malformedConfigLine lib line \<Longrightarrow>
   configLoop lib (before @ line # rest) fin config graphConfig
   = Return ([], Map.empty, Some (ErrLineUnexpected line))"
proof (induction before arbitrary: config graphConfig)
  case Nil
  then show ?case by (simp add: configLoop_malformed del: configLoop.simps)
next
  case (Cons l ls)
  from Cons.prems(1) have a: "acceptedConfigLine lib l" and r: "list_all (acceptedConfigLine lib) ls"
    by simp_all
  from configLoop_accepted[OF a] obtain c' g' where
    "configLoop lib (l # (ls @ line # rest)) fin config graphConfig
     = configLoop lib (ls @ line # rest) fin c' g'"
    by blast
  with Cons.IH[OF r Cons.prems(2)] show ?case
    by (simp del: configLoop.simps)
qed

lemma alike_iff:
  "alike a b \<longleftrightarrow>
     dials a = dials b \<and> replies a = replies b \<and> clock a = clock b \<and> hostname a = hostname b
     \<and> graphs a = graphs b \<and> gaugePerMetric a = gaugePerMetric b
     \<and> counterPerMetric a = counterPerMetric b
     \<and> map eraseVerdict (trace a) = map eraseVerdict (trace b) \<and> state.more a = state.more b"
  unfolding alike_def besidesSink_def
  by (cases a, cases b) auto

lemma alike_refl: "alike a a"
  by (simp add: alike_def)

lemma alike_emit: "alike a b \<Longrightarrow> alike (emit e a) (emit e b)"
  by (simp add: alike_iff emit_def)

lemma outcomeRel_andThen:
  assumes "outcomeRel P m m'" and "\<And>x y. P x y \<Longrightarrow> outcomeRel Q (f x) (g y)"
  shows "outcomeRel Q (andThen m f) (andThen m' g)"
  using assms by (cases m; cases m') simp_all

lemma alike_connect:
  "alike a b \<Longrightarrow> fst (connect a) = fst (connect b) \<and> alike (snd (connect a)) (snd (connect b))"
  unfolding connect_def Let_def
  by (auto simp: alike_iff emit_def split: list.splits option.splits sum.splits)

lemma alike_sleep: "alike a b \<Longrightarrow> alike (sleep a) (sleep b)"
  by (simp add: alike_iff sleep_def emit_def)

lemma alike_reconnect: "alike a b \<Longrightarrow> outcomeRel alike (reconnect a) (reconnect b)"
proof (induction a arbitrary: b rule: reconnect.induct)
  case (1 a)
  from "1.prems" have d: "dials a = dials b"
    by (simp add: alike_iff)
  show ?case
  proof (cases "dials a = []")
    case True
    with d show ?thesis by simp
  next
    case False
    obtain r a1 where ca: "connect a = (r, a1)" by (cases "connect a")
    obtain r' b1 where cb: "connect b = (r', b1)" by (cases "connect b")
    from alike_connect[OF "1.prems"] ca cb have rr: "r' = r" and al: "alike a1 b1"
      by simp_all
    show ?thesis
    proof (cases r)
      case None
      with False d ca cb rr al show ?thesis by simp
    next
      case (Some err)
      have "alike (sleep (emit (Log (LogCouldntReconnect err)) a1))
                  (sleep (emit (Log (LogCouldntReconnect err)) b1))"
        by (intro alike_sleep alike_emit al)
      from "1.IH"[OF False ca[symmetric] Some this] False d ca cb rr Some
      show ?thesis by simp
    qed
  qed
qed

lemma alike_nextReply:
  "alike a b \<Longrightarrow> fst (nextReply a) = fst (nextReply b)
     \<and> alike (snd (nextReply a)) (snd (nextReply b))"
  by (auto simp: nextReply_def alike_iff split: list.splits)

lemma alike_muninCommand:
  "alike a b \<Longrightarrow>
   outcomeRel (\<lambda>(r, e, s) (r', e', s'). r = r' \<and> e = e' \<and> alike s s')
     (muninCommand cmd a) (muninCommand cmd b)"
proof (induction cmd a arbitrary: b rule: muninCommand.induct)
  case (1 cmd a)
  obtain r a1 where na: "nextReply (emit (Command cmd) a) = (r, a1)"
    by (cases "nextReply (emit (Command cmd) a)")
  obtain r' b1 where nb: "nextReply (emit (Command cmd) b) = (r', b1)"
    by (cases "nextReply (emit (Command cmd) b)")
  from alike_nextReply[OF alike_emit[OF "1.prems"], of "Command cmd"] na nb
  have rr: "r' = r" and al: "alike a1 b1"
    by simp_all
  show ?case
  proof (cases "peekErr r")
    case None
    with na nb rr al show ?thesis by simp
  next
    case (Some e)
    show ?thesis
    proof (cases e)
      case EOF
      let ?a2 = "emit Close (emit (Log LogNotConnected) a1)"
      let ?b2 = "emit Close (emit (Log LogNotConnected) b1)"
      have rc: "outcomeRel alike (reconnect ?a2) (reconnect ?b2)"
        by (intro alike_reconnect alike_emit al)
      show ?thesis
      proof (cases "reconnect ?a2")
        case (Return a3)
        with rc obtain b3 where rb: "reconnect ?b2 = Return b3" and al3: "alike a3 b3"
          by (cases "reconnect ?b2") simp_all
        from "1.IH"[OF na[symmetric] Some EOF Return al3] na nb rr Some EOF Return rb
        show ?thesis by simp
      next
        case (Exit x)
        with rc na nb rr Some EOF show ?thesis
          by (cases "reconnect ?b2") simp_all
      next
        case (Panic x)
        with rc na nb rr Some EOF show ?thesis
          by (cases "reconnect ?b2") simp_all
      next
        case Blocked
        with rc na nb rr Some EOF show ?thesis
          by (cases "reconnect ?b2") simp_all
      qed
    next
      case (IOError x)
      with na nb rr Some show ?thesis by simp
    qed
  qed
qed


lemma Fields_sink: "Fields (lib\<lparr>sinkRejects := v\<rparr>) s = Fields lib s"
  by (simp add: Fields_def)

lemma ToLower_sink: "ToLower (lib\<lparr>sinkRejects := v\<rparr>) s = ToLower lib s"
  by (simp add: ToLower_def)

lemma configLoop_sink:
  "configLoop (lib\<lparr>sinkRejects := v\<rparr>) ls fin config graphConfig
   = configLoop lib ls fin config graphConfig"
  by (induction ls arbitrary: config graphConfig)
     (auto simp: Fields_sink Let_def split: list.splits)

lemma alike_muninList:
  assumes "alike a b"
  shows "outcomeRel (\<lambda>(i, e, s) (i', e', s'). i = i' \<and> e = e' \<and> alike s s')
           (muninList lib a) (muninList (lib\<lparr>sinkRejects := v\<rparr>) b)"
  unfolding muninList_def
  by (rule outcomeRel_andThen[OF alike_muninCommand[OF assms]])
     (auto simp: Fields_sink alike_emit split: option.splits list.splits)

lemma alike_muninConfig:
  assumes "alike a b"
  shows "outcomeRel (\<lambda>(c, g, e, s) (c', g', e', s'). c = c' \<and> g = g' \<and> e = e' \<and> alike s s')
           (muninConfig lib name a) (muninConfig (lib\<lparr>sinkRejects := v\<rparr>) name b)"
  unfolding muninConfig_def
proof (rule outcomeRel_andThen[OF alike_muninCommand[OF assms]], clarify)
  fix resp :: reply and err :: "error option" and s s' :: "'a state"
  assume al: "alike s s'"
  show "outcomeRel (\<lambda>(c, g, e, s) (c', g', e', s'). c = c' \<and> g = g' \<and> e = e' \<and> alike s s')
          (case err of
             None \<Rightarrow> andThen (configLoop lib (replyLines resp) (replyEnd resp) [] Map.empty)
                       (\<lambda>(config, graphConfig, err'). Return (config, graphConfig, err', s))
           | Some e \<Rightarrow> Return ([], Map.empty, Some e, emit (Log (LogCouldntGetConfig name)) s))
          (case err of
             None \<Rightarrow> andThen (configLoop (lib\<lparr>sinkRejects := v\<rparr>) (replyLines resp) (replyEnd resp) [] Map.empty)
                       (\<lambda>(config, graphConfig, err'). Return (config, graphConfig, err', s'))
           | Some e \<Rightarrow> Return ([], Map.empty, Some e, emit (Log (LogCouldntGetConfig name)) s'))"
  proof (cases err)
    case None
    show ?thesis
      unfolding None configLoop_sink option.case
      by (cases "configLoop lib (replyLines resp) (replyEnd resp) [] Map.empty")
         (auto simp: al)
  next
    case (Some e)
    with al show ?thesis by (simp add: alike_emit)
  qed
qed

lemma alike_Register:
  "alike a b \<Longrightarrow> alike (snd (Register lib d a)) (snd (Register lib' d b))"
  by (simp add: Register_def alike_iff emit_def)

lemma alike_registerField:
  assumes "alike a b"
  shows "alike (registerField lib fl name graphConfig metric config a)
               (registerField (lib\<lparr>sinkRejects := v\<rparr>) fl name graphConfig metric config b)"
proof -
  have g: "alike (x\<lparr>gaugePerMetric := (gaugePerMetric x)(k \<mapsto> h)\<rparr>)
                 (y\<lparr>gaugePerMetric := (gaugePerMetric y)(k \<mapsto> h)\<rparr>)"
    if "alike x y" for x y :: "'a state" and k h
    using that by (simp add: alike_iff)
  have c: "alike (x\<lparr>counterPerMetric := (counterPerMetric x)(k \<mapsto> h)\<rparr>)
                 (y\<lparr>counterPerMetric := (counterPerMetric y)(k \<mapsto> h)\<rparr>)"
    if "alike x y" for x y :: "'a state" and k h
    using that by (simp add: alike_iff)
  show ?thesis
    unfolding registerField_def Let_def ToLower_sink
    by (auto intro!: alike_Register g c alike_emit assms simp: newMuninCounter_def)
qed

lemma alike_registerFields:
  "alike a b \<Longrightarrow>
   alike (registerFields lib fl name graphConfig configs ks a)
         (registerFields (lib\<lparr>sinkRejects := v\<rparr>) fl name graphConfig configs ks b)"
  by (induction ks arbitrary: a b) (auto simp: alike_registerField split: option.splits)

lemma alike_registerPlugins:
  "alike a b \<Longrightarrow>
   outcomeRel (\<lambda>(e, s) (e', s'). e = e' \<and> alike s s')
     (registerPlugins lib fl ignoreList items a)
     (registerPlugins (lib\<lparr>sinkRejects := v\<rparr>) fl ignoreList items b)"
proof (induction items arbitrary: a b)
  case Nil
  then show ?case by simp
next
  case (Cons name items)
  show ?case
  proof (cases "skipPlugin ignoreList name")
    case True
    with Cons show ?thesis by simp
  next
    case False
    from Cons.prems have al: "alike (a\<lparr>graphs := graphs a @ [name]\<rparr>) (b\<lparr>graphs := graphs b @ [name]\<rparr>)"
      by (simp add: alike_iff)
    show ?thesis
      unfolding registerPlugins.simps
      using False
      apply simp
      apply (rule outcomeRel_andThen[OF alike_muninConfig[OF al]])
      apply (auto split: option.splits intro!: Cons.IH alike_registerFields)
      done
  qed
qed

lemma alike_builtInMetrics:
  "alike a b \<Longrightarrow> outcomeRel alike (builtInMetrics lib a) (builtInMetrics (lib\<lparr>sinkRejects := v\<rparr>) b)"
proof -
  assume al: "alike a b"
  have g: "alike (x\<lparr>gaugePerMetric := (gaugePerMetric x)(k \<mapsto> h)\<rparr>)
                 (y\<lparr>gaugePerMetric := (gaugePerMetric y)(k \<mapsto> h)\<rparr>)"
    if "alike x y" for x y :: "'a state" and k h
    using that by (simp add: alike_iff)
  show ?thesis
    unfolding builtInMetrics_def Let_def
    by (auto split: sum.splits intro!: alike_Register g alike_emit al)
qed

lemma alike_registerMetrics:
  "outcomeRel (\<lambda>(e, s) (e', s'). e = e' \<and> alike s s')
     (registerMetrics lib fl st) (registerMetrics (lib\<lparr>sinkRejects := v\<rparr>) fl st)"
  unfolding registerMetrics_def
  apply (rule outcomeRel_andThen[OF alike_muninList[OF alike_refl]])
  apply (clarsimp split: option.splits)
  apply (rule outcomeRel_andThen[OF alike_registerPlugins])
   apply assumption
  apply (clarsimp split: option.splits)
  apply (rule outcomeRel_andThen[OF alike_builtInMetrics])
   apply assumption
  apply simp
  done

lemma buildResult_eq:
  "outcomeRel (\<lambda>(e, s) (e', s'). e = e' \<and> alike s s') x y \<Longrightarrow> buildResult x = buildResult y"
  by (cases x; cases y) (auto simp: buildResult_def alike_def)


lemma colliding_build:
  "\<exists>st'. registerMetrics sampleLib noPrefix collidingAgent = Return (None, st')
     \<and> trace st' =
         [Command ''list'', Command ''config disk-io'',
          Log (LogRegisteredGauge ''disk_io_read'' ''Disk: read''),
          Registration \<lparr>fqName = ''disk_io_read'', descHelp = ''Disk: read'',
                         constLabels = [(''type'', ''gauge'')], variableLabels = fieldLabels\<rparr> False,
          Command ''config disk_io'',
          Log (LogRegisteredGauge ''disk_io_read'' ''Disk: read''),
          Registration \<lparr>fqName = ''disk_io_read'', descHelp = ''Disk: read'',
                         constLabels = [(''type'', ''gauge'')], variableLabels = fieldLabels\<rparr> True,
          GaugeSet ''munin_exporter_build_info'' [''go1.21'', ''0.2''] 1,
          Registration \<lparr>fqName = ''munin_exporter_build_info'',
                         descHelp = ''Munin exporter build info'',
                         constLabels = [(''type'', ''gauge'')],
                         variableLabels = [''goversion'', ''version_num'']\<rparr> False,
          Registration \<lparr>fqName = ''munin_exporter_fetch_time'',
                         descHelp = ''Time taken to fetch data from all registered munin plugins'',
                         constLabels = [(''type'', ''gauge'')],
                         variableLabels = [''hostname'']\<rparr> False]
     \<and> graphs st' = [''disk-io'', ''disk_io'']"
  by (simp add: registerMetrics_def muninList_def muninConfig_def registerField_def
        builtInMetrics_def Register_def WithLabelValuesSet_def version_num_def lookupStr_def
        ToLower_def asciiLower_def collidingAgent_def connectedTo_def sample_defs string_defs
        nextReply_def emit_def skipPlugin_def HasPrefix_def Let_def)

lemma exporter_build:
  "\<exists>st'. registerMetrics sampleLib noPrefix exporterAgent = Return (None, st')
     \<and> graphs st' = [''munin-exporter''] \<and> hostname st' = ''node1''
     \<and> replies st' = [answer [''fetch_time.value 99\<newline>'', ''.\<newline>'']]
     \<and> gaugePerMetric st' fetchTimeName
         = Some (NewGaugeVec fetchTimeName
                   ''Time taken to fetch data from all registered munin plugins'' [''hostname''])
     \<and> counterPerMetric st' fetchTimeName
         = Some (newMuninCounter sampleLib fetchTimeName ''Exporter: time'' fieldLabels
                   [(''type'', ''counter'')])"
  by (simp add: registerMetrics_def muninList_def muninConfig_def registerField_def
        builtInMetrics_def Register_def WithLabelValuesSet_def version_num_def lookupStr_def
        ToLower_def asciiLower_def exporterAgent_def connectedTo_def sample_defs string_defs
        nextReply_def emit_def skipPlugin_def HasPrefix_def Let_def)














text \<open>
  An end of stream met later, while the lines of a fetch response or of a config
  response are read, takes another path: lines 189 and 315 call \<open>log.Fatalf\<close> before the
  retry that their message announces, and the process exits.
\<close>

lemma end_of_stream_inside_response_exits:
  "fetchLoop lib fl graph [] EOF st = Exit FatalUnexpectedEOF
   \<and> configLoop lib [] EOF config graphConfig = Exit FatalUnexpectedEOF
   \<and> fetchMetrics sampleLib noPrefix (scrapeState\<lparr>replies := [answer [''user.value 12.5\<newline>'']]\<rparr>)
       = Exit FatalUnexpectedEOF
   \<and> registerMetrics sampleLib noPrefix
        (connectedTo [answer [''cpu\<newline>''], answer [''graph_title CPU\<newline>'']])
       = Exit FatalUnexpectedEOF"
  by (simp add: fetchMetrics_def registerMetrics_def muninList_def muninConfig_def
        fetchLine_def WithLabelValuesSet_def connectedTo_def sample_defs string_defs
        nextReply_def emit_def skipPlugin_def HasPrefix_def Let_def)

section \<open>Theorems\<close>

text \<open>
  Claim C5. For every prefix, plugin and field, the name computed during a scrape
  (\<open>fetchMetrics\<close>) is the name computed during the catalog build
  (\<open>registerMetrics\<close>), and both are the specification's rule: the optional non-empty
  prefix, the plugin name and the field name joined with \<open>_\<close>, every \<open>-\<close> replaced
  by \<open>_\<close>.
\<close>

theorem canonical_name_same_in_register_and_fetch:
  "fetchName fl plugin field = registerName fl plugin field
   \<and> registerName fl plugin field = canonicalName (metricPrefix fl) plugin field"
  by (simp add: fetchName_def registerName_def canonicalName_def Replace_def Let_def)

text \<open>
  Claim C8. A scrape pass that returns without an error sets the scrape-duration gauge
  exactly once: the last event of the pass is the gauge \<open>munin_exporter_fetch_time\<close>
  set for the label value \<open>hostname\<close>, no earlier event of the pass sets that gauge, and
  the value is \<open>Duration.Seconds\<close> of the time between the start and the end of the pass
  on the monotonic clock, a duration that is not negative. After the pass the gauge holds
  that value for the hostname.
\<close>

theorem scrape_duration_set_once:
  assumes "fetchMetrics lib fl st = Return (None, st')"
  shows "\<exists>evs d gv. trace st' = trace st @ evs @ [GaugeSet fetchTimeName [hostname st'] (seconds lib d)]
           \<and> (\<forall>lvs v. GaugeSet fetchTimeName lvs v \<notin> set evs)
           \<and> d = clock st' - clock st \<and> 0 \<le> d
           \<and> gaugePerMetric st' fetchTimeName = Some gv
           \<and> map_of (gaugeSamples gv) [hostname st'] = Some (seconds lib d)"
proof -
  from assms obtain s1 gv gv' where
    fg: "fetchGraphs lib fl (graphs st) st = Return (None, s1)"
    and g: "gaugePerMetric s1 fetchTimeName = Some gv"
    and w: "WithLabelValuesSet gv [hostname s1] (seconds lib (clock s1 - clock st)) = Inr gv'"
    and st': "st' = emit (GaugeSet fetchTimeName [hostname s1] (seconds lib (clock s1 - clock st)))
                      (s1\<lparr>gaugePerMetric := (gaugePerMetric s1)(fetchTimeName \<mapsto> gv')\<rparr>)"
    by (auto simp: fetchMetrics_def Let_def andThen_Return split: option.splits sum.splits)
  from fetchGraphs_passStep[OF fg] obtain evs where
    ds: "gaugeDescs s1 = gaugeDescs st" and ck: "clock st \<le> clock s1"
    and tr: "trace s1 = trace st @ evs" and fit: "list_all (labelsFit (gaugeDescs st)) evs"
    by (auto simp: passStep_def)
  from w have one: "length (variableLabels (gaugeDesc gv)) = 1"
    and gv': "gv' = gv\<lparr>gaugeSamples := AList.update [hostname s1] (seconds lib (clock s1 - clock st)) (gaugeSamples gv)\<rparr>"
    by (auto simp: WithLabelValuesSet_def split: if_splits)
  from g have "gaugeDescs s1 fetchTimeName = Some (gaugeDesc gv)"
    by (simp add: gaugeDescs_def)
  with ds have "gaugeDescs st fetchTimeName = Some (gaugeDesc gv)"
    by simp
  with one fit have no: "\<forall>lvs v. GaugeSet fetchTimeName lvs v \<notin> set evs"
    by (auto simp: list_all_iff dest!: bspec)
  from st' tr ck gv' no show ?thesis
    by (auto simp: emit_def update_conv')
qed

theorem scrape_duration_set_once_witness:
  "\<exists>st'. fetchMetrics sampleLib noPrefix scrapeState = Return (None, st')
     \<and> hostname st' = ''node1'' \<and> clock st' - clock scrapeState = 2000000
     \<and> (\<exists>evs d gv.
           trace st' = trace scrapeState @ evs @ [GaugeSet fetchTimeName [hostname st'] (seconds sampleLib d)]
         \<and> (\<forall>lvs v. GaugeSet fetchTimeName lvs v \<notin> set evs)
         \<and> d = clock st' - clock scrapeState \<and> 0 \<le> d
         \<and> gaugePerMetric st' fetchTimeName = Some gv
         \<and> map_of (gaugeSamples gv) [hostname st'] = Some (seconds sampleLib d))"
proof -
  obtain st' where r: "fetchMetrics sampleLib noPrefix scrapeState = Return (None, st')"
    using sample_pass_returns by blast
  have "hostname st' = ''node1'' \<and> clock st' - clock scrapeState = 2000000"
    using r
    by (auto simp add: fetchMetrics_def sample_defs string_defs nextReply_def emit_def
          fetchLine_def WithLabelValuesSet_def UpdateLabels_def Let_def)
  with r scrape_duration_set_once[OF r] show ?thesis
    by blast
qed



text \<open>
  Claim C9. \<open>UpdateLabels\<close> replaces the stored value and the stored label values and
  leaves the descriptor of the counter holder as it was. A fetch line whose name is a key
  of the counter map and not of the gauge map replaces the holder under that name by
  the holder updated with the parsed value and the labels (hostname, plugin, field), and
  leaves the gauge map alone. Over a whole scrape pass that returns, the descriptors of
  all counter holders and of all gauge holders, key by key, are what they were before:
  no holder changes its descriptor or its kind, and none is added or removed.
\<close>

theorem counter_update_replaces_value_and_labels:
  "counterValue (UpdateLabels c labels v) = v
   \<and> currentLabels (UpdateLabels c labels v) = labels
   \<and> counterDesc (UpdateLabels c labels v) = counterDesc c
   \<and> (Fields lib (TrimRightNL raw) = [k, vs] \<and> parseFloat lib vs = Some v
        \<and> gaugePerMetric st (fetchName fl graph (hd (Split k (CHR ''.'')))) = None
        \<and> counterPerMetric st (fetchName fl graph (hd (Split k (CHR ''.'')))) = Some c \<longrightarrow>
      (\<exists>st1. fetchLine lib fl graph raw st = Continue st1
         \<and> gaugePerMetric st1 = gaugePerMetric st
         \<and> counterPerMetric st1 =
             (counterPerMetric st)(fetchName fl graph (hd (Split k (CHR ''.''))) \<mapsto>
               UpdateLabels c [hostname st, graph, hd (Split k (CHR ''.''))] v)))
   \<and> (fetchMetrics lib fl st = Return (r, st') \<longrightarrow>
        counterDescs st' = counterDescs st \<and> gaugeDescs st' = gaugeDescs st)"
proof (intro conjI impI)
  assume a: "Fields lib (TrimRightNL raw) = [k, vs] \<and> parseFloat lib vs = Some v
        \<and> gaugePerMetric st (fetchName fl graph (hd (Split k (CHR ''.'')))) = None
        \<and> counterPerMetric st (fetchName fl graph (hd (Split k (CHR ''.'')))) = Some c"
  then have "TrimRightNL raw \<noteq> ''.''"
    using Fields_dot[of lib] by auto
  with a show "\<exists>st1. fetchLine lib fl graph raw st = Continue st1
         \<and> gaugePerMetric st1 = gaugePerMetric st
         \<and> counterPerMetric st1 =
             (counterPerMetric st)(fetchName fl graph (hd (Split k (CHR ''.''))) \<mapsto>
               UpdateLabels c [hostname st, graph, hd (Split k (CHR ''.''))] v)"
    by (simp add: fetchLine_def end_marker_iff emit_def Let_def)
next
  assume "fetchMetrics lib fl st = Return (r, st')"
  from fetchMetrics_descs[OF this]
  show "counterDescs st' = counterDescs st" and "gaugeDescs st' = gaugeDescs st"
    by simp_all
qed (simp_all add: UpdateLabels_def)

theorem counter_update_replaces_value_and_labels_witness:
  "(\<exists>st1. fetchLine sampleLib noPrefix ''cpu'' ''system.value 99\<newline>'' scrapeState = Continue st1
      \<and> gaugePerMetric st1 = gaugePerMetric scrapeState
      \<and> map_option counterValue (counterPerMetric st1 ''cpu_system'') = Some 99
      \<and> map_option currentLabels (counterPerMetric st1 ''cpu_system'') = Some [''node1'', ''cpu'', ''system''])
   \<and> (\<exists>st'. fetchMetrics sampleLib noPrefix scrapeState = Return (None, st')
         \<and> counterDescs st' = counterDescs scrapeState \<and> gaugeDescs st' = gaugeDescs scrapeState)"
proof -
  have h: "Fields sampleLib (TrimRightNL ''system.value 99\<newline>'') = [''system.value'', ''99'']
      \<and> parseFloat sampleLib ''99'' = Some 99
      \<and> gaugePerMetric scrapeState (fetchName noPrefix ''cpu'' (hd (Split ''system.value'' (CHR ''.'')))) = None
      \<and> counterPerMetric scrapeState (fetchName noPrefix ''cpu'' (hd (Split ''system.value'' (CHR ''.''))))
          = Some (sampleCounter ''cpu_system'')"
    by (simp add: sample_defs string_defs)
  have n: "fetchName noPrefix ''cpu'' (hd (Split ''system.value'' (CHR ''.''))) = ''cpu_system''"
    by (simp add: sample_defs string_defs)
  obtain st' where r: "fetchMetrics sampleLib noPrefix scrapeState = Return (None, st')"
    using sample_pass_returns by blast
  note inst = counter_update_replaces_value_and_labels
    [where lib = sampleLib and raw = "''system.value 99\<newline>''" and st = scrapeState
       and fl = noPrefix and graph = "''cpu''" and r = None and st' = st']
  from inst[THEN conjunct2, THEN conjunct2, THEN conjunct2, THEN conjunct1, rule_format, OF h]
  obtain st1 where
    "fetchLine sampleLib noPrefix ''cpu'' ''system.value 99\<newline>'' scrapeState = Continue st1"
    "gaugePerMetric st1 = gaugePerMetric scrapeState"
    "counterPerMetric st1 = (counterPerMetric scrapeState)(''cpu_system'' \<mapsto>
        UpdateLabels (sampleCounter ''cpu_system'') [hostname scrapeState, ''cpu'', ''system''] 99)"
    unfolding n by (auto simp: string_defs)
  then have a: "\<exists>st1. fetchLine sampleLib noPrefix ''cpu'' ''system.value 99\<newline>'' scrapeState = Continue st1
      \<and> gaugePerMetric st1 = gaugePerMetric scrapeState
      \<and> map_option counterValue (counterPerMetric st1 ''cpu_system'') = Some 99
      \<and> map_option currentLabels (counterPerMetric st1 ''cpu_system'') = Some [''node1'', ''cpu'', ''system'']"
    by (simp add: UpdateLabels_def scrapeState_def)
  from inst[THEN conjunct2, THEN conjunct2, THEN conjunct2, THEN conjunct2, rule_format, OF r] r
  have b: "\<exists>st'. fetchMetrics sampleLib noPrefix scrapeState = Return (None, st')
         \<and> counterDescs st' = counterDescs scrapeState \<and> gaugeDescs st' = gaugeDescs scrapeState"
    by blast
  from a b show ?thesis by blast
qed

text \<open>
  Claim C6. The body of the registration loop makes a field a counter if and only if its
  \<open>type\<close> attribute is present and equals \<open>counter\<close> or \<open>derive\<close> when compared
  case-insensitively: then the new holder is stored in the counter map under the
  canonical name, with the lower-cased attribute as its constant label \<open>type\<close>, and the
  gauge map is left alone. With any other value, or with no \<open>type\<close> attribute, the new
  holder is a gauge: it is stored in the gauge map, with the constant label \<open>type\<close> set
  to \<open>gauge\<close>, and the counter map is left alone.
\<close>

theorem field_kind_by_type_attribute:
  "(declaredCounter lib config \<longrightarrow>
      (\<exists>c. counterPerMetric (registerField lib fl name graphConfig metric config st)
              = (counterPerMetric st)(registerName fl name metric \<mapsto> c)
          \<and> fqName (counterDesc c) = registerName fl name metric
          \<and> constLabels (counterDesc c) = [(''type'', ToLower lib (lookupStr config ''type''))]
          \<and> gaugePerMetric (registerField lib fl name graphConfig metric config st)
              = gaugePerMetric st))
   \<and> (\<not> declaredCounter lib config \<longrightarrow>
      (\<exists>g. gaugePerMetric (registerField lib fl name graphConfig metric config st)
              = (gaugePerMetric st)(registerName fl name metric \<mapsto> g)
          \<and> fqName (gaugeDesc g) = registerName fl name metric
          \<and> constLabels (gaugeDesc g) = [(''type'', ''gauge'')]
          \<and> counterPerMetric (registerField lib fl name graphConfig metric config st)
              = counterPerMetric st))"
  by (auto simp: declaredCounter_iff registerField_def Let_def Register_def emit_def
        newMuninCounter_def NewGaugeVec_def)

theorem field_kind_by_type_attribute_witness:
  "declaredCounter sampleLib [''type'' \<mapsto> ''DERIVE'']
   \<and> declaredCounter sampleLib [''type'' \<mapsto> ''Counter'']
   \<and> \<not> declaredCounter sampleLib [''type'' \<mapsto> ''GAUGE'']
   \<and> \<not> declaredCounter sampleLib (Map.empty :: string \<rightharpoonup> string)
   \<and> map_option (\<lambda>c. constLabels (counterDesc c))
        (counterPerMetric
           (registerField sampleLib noPrefix ''cpu'' Map.empty ''system'' [''type'' \<mapsto> ''DERIVE''] scrapeState)
           ''cpu_system'') = Some [(''type'', ''derive'')]
   \<and> gaugePerMetric
        (registerField sampleLib noPrefix ''cpu'' Map.empty ''system'' [''type'' \<mapsto> ''DERIVE''] scrapeState)
       = gaugePerMetric scrapeState
   \<and> map_option (\<lambda>g. constLabels (gaugeDesc g))
        (gaugePerMetric
           (registerField sampleLib noPrefix ''cpu'' Map.empty ''idle'' Map.empty scrapeState)
           ''cpu_idle'') = Some [(''type'', ''gauge'')]
   \<and> counterPerMetric
        (registerField sampleLib noPrefix ''cpu'' Map.empty ''idle'' Map.empty scrapeState)
       = counterPerMetric scrapeState"
proof -
  have low: "ToLower sampleLib ''DERIVE'' = ''derive''" "ToLower sampleLib ''Counter'' = ''counter''"
    "ToLower sampleLib ''GAUGE'' = ''gauge''"
    by (simp_all add: ToLower_def isASCII_def asciiLower_def)
  have d: "declaredCounter sampleLib [''type'' \<mapsto> ''DERIVE'']"
    "declaredCounter sampleLib [''type'' \<mapsto> ''Counter'']"
    "\<not> declaredCounter sampleLib [''type'' \<mapsto> ''GAUGE'']"
    "\<not> declaredCounter sampleLib (Map.empty :: string \<rightharpoonup> string)"
    by (simp_all add: declaredCounter_def equalIgnoringCase_def low ToLower_keywords)
  have n: "registerName noPrefix ''cpu'' ''system'' = ''cpu_system''"
    "registerName noPrefix ''cpu'' ''idle'' = ''cpu_idle''"
    by (simp_all add: string_defs noPrefix_def)
  from field_kind_by_type_attribute[THEN conjunct1, rule_format, OF d(1),
      of noPrefix "''cpu''" Map.empty "''system''" scrapeState]
  have a: "map_option (\<lambda>c. constLabels (counterDesc c))
        (counterPerMetric
           (registerField sampleLib noPrefix ''cpu'' Map.empty ''system'' [''type'' \<mapsto> ''DERIVE''] scrapeState)
           ''cpu_system'') = Some [(''type'', ''derive'')]
   \<and> gaugePerMetric
        (registerField sampleLib noPrefix ''cpu'' Map.empty ''system'' [''type'' \<mapsto> ''DERIVE''] scrapeState)
       = gaugePerMetric scrapeState"
    by (auto simp: n low lookupStr_def)
  from field_kind_by_type_attribute[THEN conjunct2, rule_format, OF d(4),
      of noPrefix "''cpu''" Map.empty "''idle''" scrapeState]
  have b: "map_option (\<lambda>g. constLabels (gaugeDesc g))
        (gaugePerMetric
           (registerField sampleLib noPrefix ''cpu'' Map.empty ''idle'' Map.empty scrapeState)
           ''cpu_idle'') = Some [(''type'', ''gauge'')]
   \<and> counterPerMetric
        (registerField sampleLib noPrefix ''cpu'' Map.empty ''idle'' Map.empty scrapeState)
       = counterPerMetric scrapeState"
    by (auto simp: n)
  from d a b show ?thesis
    by blast
qed

text \<open>
  Claim C3, refuted as stated: on the response \<open>graph_title CPU\<close>, \<open>bogus\<close>,
  \<open>user.label user\<close>, end marker, of the plugin \<open>cpu\<close>, the catalog build returns the
  error \<open>Line unexpected: bogus\<close>; no holder is created for the field \<open>user\<close> of the
  line after the malformed one, and nothing is logged.
\<close>

theorem malformed_config_line_counterexample:
  "\<exists>st'. registerMetrics sampleLib noPrefix
            (connectedTo [answer [''cpu\<newline>''],
                          answer [''graph_title CPU\<newline>'', ''bogus\<newline>'', ''user.label user\<newline>'',
                                  ''.\<newline>'']])
          = Return (Some (ErrLineUnexpected ''bogus\<newline>''), st')
        \<and> gaugePerMetric st' ''cpu_user'' = None
        \<and> trace st' = [Command ''list'', Command ''config cpu'']"
  by (simp add: registerMetrics_def muninList_def muninConfig_def connectedTo_def sample_defs
        string_defs nextReply_def emit_def skipPlugin_def HasPrefix_def Let_def)

text \<open>
  Claim C3, amended. In the loop of \<open>muninConfig\<close>, a malformed line (not the end marker,
  not a comment, fewer than two tokens) that comes after comments and lines of at least
  two tokens makes the loop return the error \<open>Line unexpected\<close> with nil maps, whatever
  lines follow it: they are not parsed. When the plugin is not ignored, the catalog
  build stops at this plugin with that error, in the state in which the response
  arrived: nothing is logged for the line, and the remaining plugins are not configured.
\<close>

theorem malformed_config_line_aborts:
  "(list_all (acceptedConfigLine lib) before \<and> malformedConfigLine lib line \<longrightarrow>
      configLoop lib (before @ line # rest) fin config graphConfig
      = Return ([], Map.empty, Some (ErrLineUnexpected line)))
   \<and> (list_all (acceptedConfigLine lib) before \<and> malformedConfigLine lib line
       \<and> skipPlugin ignoreList name = False
       \<and> muninCommand (''config '' @ name) (st\<lparr>graphs := graphs st @ [name]\<rparr>)
           = Return (resp, err, st1)
       \<and> replyLines resp = before @ line # rest \<longrightarrow>
      registerPlugins lib fl ignoreList (name # items) st
      = Return (Some (ErrLineUnexpected line), st1))"
proof (intro conjI impI)
  assume "list_all (acceptedConfigLine lib) before \<and> malformedConfigLine lib line"
  then show "configLoop lib (before @ line # rest) fin config graphConfig
      = Return ([], Map.empty, Some (ErrLineUnexpected line))"
    by (simp add: configLoop_aborts del: configLoop.simps)
next
  assume a: "list_all (acceptedConfigLine lib) before \<and> malformedConfigLine lib line
       \<and> skipPlugin ignoreList name = False
       \<and> muninCommand (''config '' @ name) (st\<lparr>graphs := graphs st @ [name]\<rparr>)
           = Return (resp, err, st1)
       \<and> replyLines resp = before @ line # rest"
  then have e: "err = None"
    using muninCommand_netStep by blast
  from a have "configLoop lib (replyLines resp) (replyEnd resp) [] Map.empty
      = Return ([], Map.empty, Some (ErrLineUnexpected line))"
    by (simp add: configLoop_aborts del: configLoop.simps)
  with a e show "registerPlugins lib fl ignoreList (name # items) st
      = Return (Some (ErrLineUnexpected line), st1)"
    by (simp add: muninConfig_def del: configLoop.simps)
qed

theorem malformed_config_line_aborts_witness:
  "configLoop sampleLib ([''graph_title CPU\<newline>''] @ ''bogus\<newline>'' # [''user.label user\<newline>'', ''.\<newline>''])
     EOF [] Map.empty
   = Return ([], Map.empty, Some (ErrLineUnexpected ''bogus\<newline>''))
   \<and> (\<exists>st1. registerPlugins sampleLib noPrefix [''if_''] [''cpu'', ''load'']
               (connectedTo [answer [''graph_title CPU\<newline>'', ''bogus\<newline>'', ''user.label user\<newline>'',
                                     ''.\<newline>'']])
             = Return (Some (ErrLineUnexpected ''bogus\<newline>''), st1)
           \<and> trace st1 = [Command ''config cpu''] \<and> graphs st1 = [''cpu''])"
proof -
  let ?st = "connectedTo [answer [''graph_title CPU\<newline>'', ''bogus\<newline>'', ''user.label user\<newline>'',
                                     ''.\<newline>'']]"
  have h1: "list_all (acceptedConfigLine sampleLib) [''graph_title CPU\<newline>'']
            \<and> malformedConfigLine sampleLib ''bogus\<newline>''"
    by (simp add: acceptedConfigLine_def malformedConfigLine_def string_defs)
  obtain resp st1 where mc:
    "muninCommand (''config '' @ ''cpu'') (?st\<lparr>graphs := graphs ?st @ [''cpu'']\<rparr>)
       = Return (resp, None, st1)"
    "replyLines resp = [''graph_title CPU\<newline>''] @ ''bogus\<newline>'' # [''user.label user\<newline>'', ''.\<newline>'']"
    "trace st1 = [Command ''config cpu'']" "graphs st1 = [''cpu'']"
    by (simp add: connectedTo_def answer_def nextReply_def emit_def)
  have sk: "skipPlugin [''if_''] ''cpu'' = False"
    by (simp add: skipPlugin_def HasPrefix_def)
  from h1 sk mc(1,2) have h2:
    "list_all (acceptedConfigLine sampleLib) [''graph_title CPU\<newline>'']
       \<and> malformedConfigLine sampleLib ''bogus\<newline>''
       \<and> skipPlugin [''if_''] ''cpu'' = False
       \<and> muninCommand (''config '' @ ''cpu'') (?st\<lparr>graphs := graphs ?st @ [''cpu'']\<rparr>)
           = Return (resp, None, st1)
       \<and> replyLines resp = [''graph_title CPU\<newline>''] @ ''bogus\<newline>'' # [''user.label user\<newline>'', ''.\<newline>'']"
    by blast
  note a = malformed_config_line_aborts[THEN conjunct1, rule_format, OF h1]
  note b = malformed_config_line_aborts[THEN conjunct2, rule_format, OF h2]
  from a b mc(3,4) show ?thesis
    by blast
qed

text \<open>
  Claim C2, refuted as stated: the plugins \<open>disk-io\<close> and \<open>disk_io\<close> each have a field
  \<open>read\<close> with the same title and label, and both fields derive the canonical name
  \<open>disk_io_read\<close> and the same descriptor. A sink that rejects a name it already holds
  accepts the first registration and returns an error for the second, and
  \<open>registerMetrics\<close> returns nil all the same, with both plugins in \<open>graphs\<close>.
\<close>

theorem name_collision_counterexample:
  "registerName noPrefix ''disk-io'' ''read'' = registerName noPrefix ''disk_io'' ''read''
   \<and> (\<exists>st'. registerMetrics sampleLib noPrefix collidingAgent = Return (None, st')
         \<and> graphs st' = [''disk-io'', ''disk_io'']
         \<and> filter (\<lambda>e. case e of Registration d rejected \<Rightarrow> fqName d = ''disk_io_read'' | _ \<Rightarrow> False)
              (trace st')
            = [Registration \<lparr>fqName = ''disk_io_read'', descHelp = ''Disk: read'',
                              constLabels = [(''type'', ''gauge'')], variableLabels = fieldLabels\<rparr> False,
               Registration \<lparr>fqName = ''disk_io_read'', descHelp = ''Disk: read'',
                              constLabels = [(''type'', ''gauge'')], variableLabels = fieldLabels\<rparr> True])"
proof -
  have n: "registerName noPrefix ''disk-io'' ''read'' = registerName noPrefix ''disk_io'' ''read''"
    by (simp add: string_defs noPrefix_def)
  from colliding_build obtain st' where
    r: "registerMetrics sampleLib noPrefix collidingAgent = Return (None, st')"
    and g: "graphs st' = [''disk-io'', ''disk_io'']"
    and t: "filter (\<lambda>e. case e of Registration d rejected \<Rightarrow> fqName d = ''disk_io_read'' | _ \<Rightarrow> False)
              (trace st')
            = [Registration \<lparr>fqName = ''disk_io_read'', descHelp = ''Disk: read'',
                              constLabels = [(''type'', ''gauge'')], variableLabels = fieldLabels\<rparr> False,
               Registration \<lparr>fqName = ''disk_io_read'', descHelp = ''Disk: read'',
                              constLabels = [(''type'', ''gauge'')], variableLabels = fieldLabels\<rparr> True]"
    by auto
  with n show ?thesis by blast
qed

text \<open>
  Claim C2, amended. Whatever the sink answers to a registration, an error for a
  duplicate or not, \<open>registerMetrics\<close> drops the value that \<open>prometheus.Register\<close>
  returns: its outcome (the error it returns, an exit or a panic) and the state it
  leaves, the sink's registry and the recorded verdicts aside, are the same for every
  behaviour of the sink. When a field derives the canonical name of a field registered
  before it, its holder replaces whatever the earlier registration put under that name
  in the map of its kind: the counter map for a counter, the gauge map for a gauge.
\<close>

theorem registration_error_discarded:
  "buildResult (registerMetrics lib fl st)
     = buildResult (registerMetrics (lib\<lparr>sinkRejects := verdicts\<rparr>) fl st)
   \<and> (registerName fl name1 metric1 = registerName fl name2 metric2
        \<and> declaredCounter lib config2 \<longrightarrow>
      counterPerMetric (registerField lib fl name2 graphConfig2 metric2 config2
                          (registerField lib fl name1 graphConfig1 metric1 config1 st))
      = counterPerMetric (registerField lib fl name2 graphConfig2 metric2 config2 st))
   \<and> (registerName fl name1 metric1 = registerName fl name2 metric2
        \<and> declaredCounter lib config2 = False \<longrightarrow>
      gaugePerMetric (registerField lib fl name2 graphConfig2 metric2 config2
                        (registerField lib fl name1 graphConfig1 metric1 config1 st))
      = gaugePerMetric (registerField lib fl name2 graphConfig2 metric2 config2 st))"
proof (intro conjI impI)
  show "buildResult (registerMetrics lib fl st)
     = buildResult (registerMetrics (lib\<lparr>sinkRejects := verdicts\<rparr>) fl st)"
    by (rule buildResult_eq[OF alike_registerMetrics])
next
  assume "registerName fl name1 metric1 = registerName fl name2 metric2
        \<and> declaredCounter lib config2"
  then show "counterPerMetric (registerField lib fl name2 graphConfig2 metric2 config2
                          (registerField lib fl name1 graphConfig1 metric1 config1 st))
      = counterPerMetric (registerField lib fl name2 graphConfig2 metric2 config2 st)"
    by (auto simp: declaredCounter_iff registerField_def Let_def Register_def emit_def)
next
  assume "registerName fl name1 metric1 = registerName fl name2 metric2
        \<and> declaredCounter lib config2 = False"
  then show "gaugePerMetric (registerField lib fl name2 graphConfig2 metric2 config2
                        (registerField lib fl name1 graphConfig1 metric1 config1 st))
      = gaugePerMetric (registerField lib fl name2 graphConfig2 metric2 config2 st)"
    by (auto simp: declaredCounter_iff registerField_def Let_def Register_def emit_def)
qed

theorem registration_error_discarded_witness:
  "buildResult (registerMetrics sampleLib noPrefix collidingAgent)
     = buildResult (registerMetrics (sampleLib\<lparr>sinkRejects := (\<lambda>ds d. False)\<rparr>) noPrefix collidingAgent)
   \<and> counterPerMetric
        (registerField sampleLib noPrefix ''disk_io'' [''graph_title'' \<mapsto> ''Disk''] ''read''
           [''type'' \<mapsto> ''COUNTER'']
           (registerField sampleLib noPrefix ''disk-io'' [''graph_title'' \<mapsto> ''Disk''] ''read''
              [''type'' \<mapsto> ''DERIVE''] collidingAgent))
      = counterPerMetric
          (registerField sampleLib noPrefix ''disk_io'' [''graph_title'' \<mapsto> ''Disk''] ''read''
             [''type'' \<mapsto> ''COUNTER''] collidingAgent)
   \<and> gaugePerMetric
        (registerField sampleLib noPrefix ''disk_io'' [''graph_title'' \<mapsto> ''Disk''] ''read''
           [''label'' \<mapsto> ''read'']
           (registerField sampleLib noPrefix ''disk-io'' [''graph_title'' \<mapsto> ''Disk''] ''read''
              [''label'' \<mapsto> ''read''] collidingAgent))
      = gaugePerMetric
          (registerField sampleLib noPrefix ''disk_io'' [''graph_title'' \<mapsto> ''Disk''] ''read''
             [''label'' \<mapsto> ''read''] collidingAgent)"
proof -
  have n: "registerName noPrefix ''disk-io'' ''read'' = registerName noPrefix ''disk_io'' ''read''"
    by (simp add: string_defs noPrefix_def)
  have low: "ToLower sampleLib ''COUNTER'' = ''counter''"
    by (simp add: ToLower_def isASCII_def asciiLower_def)
  have c: "declaredCounter sampleLib [''type'' \<mapsto> ''COUNTER'']"
    by (simp add: declaredCounter_def equalIgnoringCase_def low ToLower_keywords)
  have g: "declaredCounter sampleLib [''label'' \<mapsto> ''read''] = False"
    by (simp add: declaredCounter_def)
  from n c have h1: "registerName noPrefix ''disk-io'' ''read'' = registerName noPrefix ''disk_io'' ''read''
        \<and> declaredCounter sampleLib [''type'' \<mapsto> ''COUNTER'']"
    by blast
  from n g have h2: "registerName noPrefix ''disk-io'' ''read'' = registerName noPrefix ''disk_io'' ''read''
        \<and> declaredCounter sampleLib [''label'' \<mapsto> ''read''] = False"
    by blast
  note a = registration_error_discarded[THEN conjunct1]
  note b = registration_error_discarded[THEN conjunct2, THEN conjunct1, rule_format, OF h1]
  note d = registration_error_discarded[THEN conjunct2, THEN conjunct2, rule_format, OF h2]
  from a b d show ?thesis
    by blast
qed

text \<open>
  Claim C10, refuted as stated: the plugin \<open>munin-exporter\<close> declares its field
  \<open>fetch_time\<close> a counter. The catalog build returns nil and leaves the name
  \<open>munin_exporter_fetch_time\<close> a key of both maps: of the counter map for the field, of
  the gauge map for the built-in scrape-duration gauge, which has the one label
  \<open>hostname\<close>. The fetch line \<open>fetch_time.value 99\<close> of the next scrape does not update
  the gauge holder: \<open>WithLabelValues\<close> is called with three label values and panics, and
  so does the pass.
\<close>

theorem gauge_lookup_counterexample:
  "\<exists>st'. registerMetrics sampleLib noPrefix exporterAgent = Return (None, st')
     \<and> fetchName noPrefix ''munin-exporter'' ''fetch_time'' = fetchTimeName
     \<and> gaugePerMetric st' fetchTimeName \<noteq> None
     \<and> counterPerMetric st' fetchTimeName \<noteq> None
     \<and> fetchLine sampleLib noPrefix ''munin-exporter'' ''fetch_time.value 99\<newline>'' st'
         = StepPanic LabelCardinality
     \<and> fetchMetrics sampleLib noPrefix st' = Panic LabelCardinality"
proof -
  from exporter_build obtain st' where
    r: "registerMetrics sampleLib noPrefix exporterAgent = Return (None, st')"
    and g: "graphs st' = [''munin-exporter'']" and h: "hostname st' = ''node1''"
    and rp: "replies st' = [answer [''fetch_time.value 99\<newline>'', ''.\<newline>'']]"
    and ga: "gaugePerMetric st' fetchTimeName
         = Some (NewGaugeVec fetchTimeName
                   ''Time taken to fetch data from all registered munin plugins'' [''hostname''])"
    and co: "counterPerMetric st' fetchTimeName
         = Some (newMuninCounter sampleLib fetchTimeName ''Exporter: time'' fieldLabels
                   [(''type'', ''counter'')])"
    by blast
  have n: "fetchName noPrefix ''munin-exporter'' ''fetch_time'' = fetchTimeName"
    by (simp add: string_defs noPrefix_def fetchTimeName_def)
  have f: "Fields sampleLib ''fetch_time.value 99'' = [''fetch_time.value'', ''99'']"
    "TrimRightNL ''fetch_time.value 99\<newline>'' = ''fetch_time.value 99''"
    by (simp_all add: string_defs)
  have p: "parseFloat sampleLib ''99'' = Some 99"
    by (simp add: sampleLib_def)
  have l: "fetchLine sampleLib noPrefix ''munin-exporter'' ''fetch_time.value 99\<newline>'' (st'\<lparr>replies := []\<rparr>)
         = StepPanic LabelCardinality"
    "fetchLine sampleLib noPrefix ''munin-exporter'' ''fetch_time.value 99\<newline>'' st'
         = StepPanic LabelCardinality"
    by (simp_all add: fetchLine_def f p n ga emit_def WithLabelValuesSet_def NewGaugeVec_def Let_def)
  have "fetchMetrics sampleLib noPrefix st' = Panic LabelCardinality"
    by (simp add: fetchMetrics_def g rp answer_def nextReply_def emit_def Let_def
          fetchLine_def f p n ga WithLabelValuesSet_def NewGaugeVec_def)
  with r n ga co l(2) show ?thesis
    by auto
qed

text \<open>
  Claim C10, amended. For a fetch line whose canonical name is a key of both the gauge
  map and the counter map, the gauge lookup comes first and the counter lookup is never
  reached: the line does not update the counter holder. When the gauge vector under
  that name has three labels and the label values (hostname, plugin, field) are valid
  UTF-8, the line sets the gauge for them, the counter map is left as it was, and the only
  events are the log line and the gauge set. Otherwise \<open>WithLabelValues\<close> panics, on the
  number of labels first and on the label values second, and nothing is updated.
\<close>

theorem gauge_lookup_shadows_counter:
  assumes "Fields lib (TrimRightNL raw) = [k, vs]" and "parseFloat lib vs = Some v"
    and "key = hd (Split k (CHR ''.''))" and "name = fetchName fl graph key"
    and "gaugePerMetric st name = Some gv" and "counterPerMetric st name = Some c"
  shows "(length (variableLabels (gaugeDesc gv)) = 3
            \<and> list_all ValidString [hostname st, graph, key] \<longrightarrow>
           (\<exists>st1. fetchLine lib fl graph raw st = Continue st1
              \<and> counterPerMetric st1 = counterPerMetric st
              \<and> gaugePerMetric st1 =
                  (gaugePerMetric st)(name \<mapsto>
                     gv\<lparr>gaugeSamples := AList.update [hostname st, graph, key] v (gaugeSamples gv)\<rparr>)
              \<and> trace st1 = trace st @ [Log (LogValue name v), GaugeSet name [hostname st, graph, key] v]))
       \<and> (length (variableLabels (gaugeDesc gv)) \<noteq> 3 \<longrightarrow>
           fetchLine lib fl graph raw st = StepPanic LabelCardinality)
       \<and> (length (variableLabels (gaugeDesc gv)) = 3
            \<and> list_all ValidString [hostname st, graph, key] = False \<longrightarrow>
           fetchLine lib fl graph raw st = StepPanic InvalidLabelValue)
       \<and> (\<forall>st1. fetchLine lib fl graph raw st = Continue st1
                   \<or> fetchLine lib fl graph raw st = Break st1 \<longrightarrow>
                 counterPerMetric st1 = counterPerMetric st)"
proof -
  from assms(1) have "TrimRightNL raw \<noteq> ''.''"
    using Fields_dot[of lib] by auto
  with assms show ?thesis
    by (auto simp: fetchLine_def end_marker_iff emit_def Let_def WithLabelValuesSet_def
             split: if_splits)
qed


theorem gauge_lookup_shadows_counter_witness:
  "(\<exists>st1. fetchLine sampleLib noPrefix ''cpu'' ''both.value 99\<newline>'' scrapeState = Continue st1
      \<and> counterPerMetric st1 = counterPerMetric scrapeState
      \<and> map_option gaugeSamples (gaugePerMetric st1 ''cpu_both'') = Some [([''node1'', ''cpu'', ''both''], 99)]
      \<and> trace st1 = [Log (LogValue ''cpu_both'' 99), GaugeSet ''cpu_both'' [''node1'', ''cpu'', ''both''] 99])
   \<and> fetchLine sampleLib noPrefix ''munin-exporter'' ''fetch_time.value 99\<newline>'' scrapeState
       = StepPanic LabelCardinality
   \<and> fetchLine sampleLib noPrefix ''cpu'' ''both.value 99\<newline>''
        (scrapeState\<lparr>hostname := [CHR ''n'', CHR 0xE9]\<rparr>)
       = StepPanic InvalidLabelValue"
proof -
  have p: "parseFloat sampleLib ''99'' = Some 99"
    by (simp add: sampleLib_def)
  have f1: "Fields sampleLib (TrimRightNL ''both.value 99\<newline>'') = [''both.value'', ''99'']"
    by (simp add: string_defs)
  have k1: "''both'' = hd (Split ''both.value'' (CHR ''.''))"
    by simp
  have n1: "''cpu_both'' = fetchName noPrefix ''cpu'' ''both''"
    by (simp add: string_defs noPrefix_def)
  have g1: "gaugePerMetric scrapeState ''cpu_both'' = Some (NewGaugeVec ''cpu_both'' ''CPU: both'' fieldLabels)"
    by (simp add: scrapeState_def fetchTimeName_def)
  have c1: "counterPerMetric scrapeState ''cpu_both'' = Some (sampleCounter ''cpu_both'')"
    by (simp add: scrapeState_def fetchTimeName_def)
  have l1: "length (variableLabels (gaugeDesc (NewGaugeVec ''cpu_both'' ''CPU: both'' fieldLabels :: real gaugeVec))) = 3
            \<and> list_all ValidString [hostname scrapeState, ''cpu'', ''both'']"
    by (simp add: NewGaugeVec_def fieldLabels_def scrapeState_def)
  from gauge_lookup_shadows_counter[OF f1 p k1 n1 g1 c1, THEN conjunct1, rule_format, OF l1]
  obtain st1 where s:
    "fetchLine sampleLib noPrefix ''cpu'' ''both.value 99\<newline>'' scrapeState = Continue st1"
    "counterPerMetric st1 = counterPerMetric scrapeState"
    "gaugePerMetric st1 = (gaugePerMetric scrapeState)(''cpu_both'' \<mapsto>
        (NewGaugeVec ''cpu_both'' ''CPU: both'' fieldLabels)
          \<lparr>gaugeSamples := AList.update [hostname scrapeState, ''cpu'', ''both''] 99
             (gaugeSamples (NewGaugeVec ''cpu_both'' ''CPU: both'' fieldLabels))\<rparr>)"
    "trace st1 = trace scrapeState @
       [Log (LogValue ''cpu_both'' 99), GaugeSet ''cpu_both'' [hostname scrapeState, ''cpu'', ''both''] 99]"
    by blast
  have hn: "hostname scrapeState = ''node1''" "trace scrapeState = []"
    by (simp_all add: scrapeState_def)
  from s(3) have "map_option gaugeSamples (gaugePerMetric st1 ''cpu_both'')
      = Some [([''node1'', ''cpu'', ''both''], 99)]"
    by (simp add: hn NewGaugeVec_def)
  with s(1,2,4) have both:
    "\<exists>st1. fetchLine sampleLib noPrefix ''cpu'' ''both.value 99\<newline>'' scrapeState = Continue st1
      \<and> counterPerMetric st1 = counterPerMetric scrapeState
      \<and> map_option gaugeSamples (gaugePerMetric st1 ''cpu_both'') = Some [([''node1'', ''cpu'', ''both''], 99)]
      \<and> trace st1 = [Log (LogValue ''cpu_both'' 99), GaugeSet ''cpu_both'' [''node1'', ''cpu'', ''both''] 99]"
    by (simp add: hn)
  have f2: "Fields sampleLib (TrimRightNL ''fetch_time.value 99\<newline>'') = [''fetch_time.value'', ''99'']"
    by (simp add: string_defs)
  have k2: "''fetch_time'' = hd (Split ''fetch_time.value'' (CHR ''.''))"
    by simp
  have n2: "fetchTimeName = fetchName noPrefix ''munin-exporter'' ''fetch_time''"
    by (simp add: string_defs noPrefix_def fetchTimeName_def)
  have g2: "gaugePerMetric scrapeState fetchTimeName = Some (NewGaugeVec fetchTimeName ''Time taken'' [''hostname''])"
    by (simp add: scrapeState_def)
  have c2: "counterPerMetric scrapeState fetchTimeName = Some (sampleCounter fetchTimeName)"
    by (simp add: scrapeState_def)
  have l2: "length (variableLabels (gaugeDesc (NewGaugeVec fetchTimeName ''Time taken'' [''hostname''] :: real gaugeVec))) \<noteq> 3"
    by (simp add: NewGaugeVec_def)
  note time = gauge_lookup_shadows_counter[OF f2 p k2 n2 g2 c2, THEN conjunct2, THEN conjunct1,
      rule_format, OF l2]
  let ?bad = "scrapeState\<lparr>hostname := [CHR ''n'', CHR 0xE9]\<rparr>"
  have g3: "gaugePerMetric ?bad ''cpu_both'' = Some (NewGaugeVec ''cpu_both'' ''CPU: both'' fieldLabels)"
    by (simp add: scrapeState_def fetchTimeName_def)
  have c3: "counterPerMetric ?bad ''cpu_both'' = Some (sampleCounter ''cpu_both'')"
    by (simp add: scrapeState_def fetchTimeName_def)
  have l3: "length (variableLabels (gaugeDesc (NewGaugeVec ''cpu_both'' ''CPU: both'' fieldLabels :: real gaugeVec))) = 3
            \<and> list_all ValidString [hostname ?bad, ''cpu'', ''both''] = False"
    by (simp add: NewGaugeVec_def fieldLabels_def byteIn_def)
  note bad = gauge_lookup_shadows_counter[OF f1 p k1 n1 g3 c3, THEN conjunct2, THEN conjunct2,
      THEN conjunct1, rule_format, OF l3]
  from both time bad show ?thesis
    by blast
qed

text \<open>
  Claim C1, on the code. With the flag \<open>-muninIgnore\<close> left empty, as it is by default,
  \<open>strings.Split\<close> returns the list of one empty string; the empty string is a prefix of
  every plugin name, and so every plugin is skipped. For the agent with the plugins
  \<open>cpu\<close> and \<open>load\<close> the catalog build retains no plugin: \<open>graphs\<close> stays empty, the
  only command sent is \<open>list\<close>, and the sink receives the two built-in gauges only.
\<close>

theorem empty_ignore_flag_skips_every_plugin:
  "Split (muninIgnore defaultFlags) (CHR '','') = [[]]
   \<and> skipPlugin (Split (muninIgnore defaultFlags) (CHR '','')) name
   \<and> (\<exists>st'. registerMetrics sampleLib defaultFlags twoPlugins = Return (None, st')
         \<and> graphs st' = []
         \<and> map fqName (registry st') = [''munin_exporter_build_info'', ''munin_exporter_fetch_time'']
         \<and> filter (\<lambda>e. case e of Command c \<Rightarrow> True | _ \<Rightarrow> False) (trace st') = [Command ''list''])"
  by (simp add: registerMetrics_def muninList_def builtInMetrics_def Register_def
        WithLabelValuesSet_def version_num_def defaultFlags_def twoPlugins_def connectedTo_def
        sample_defs string_defs nextReply_def emit_def skipPlugin_def HasPrefix_def Let_def)





end
